theory Spec2Isabelle
  imports Complex_Main "HOL-Library.Word" "HOL-Library.Code_Target_Nat"
begin

unbundle bit_operations_syntax

section \<open>The binding layer of bcrypto (bcrypto.cc)\<close>

text \<open>
  \<^verbatim>\<open>bcrypto.cc\<close> exports eight functions to the host runtime; six of them are
  modelled here: \<open>pbkdf2\<close>, \<open>pbkdf2_async\<close>, \<open>scrypt\<close>, \<open>encipher\<close>, \<open>decipher\<close> and
  \<open>random_fill\<close>. Each receives the argument vector \<open>info\<close>, checks the number and the
  types of the arguments, converts them to C values, calls one primitive of the
  library and either throws a JavaScript error or sets a return value. The primitives
  themselves (\<^verbatim>\<open>bcrypto_scrypt\<close>, \<^verbatim>\<open>bcrypto_pbkdf2\<close>, \<^verbatim>\<open>bcrypto_random\<close>, the cipher)
  live in other files of the package; the binding functions take them from an
  environment.
\<close>

subsection \<open>Values, errors, events\<close>

type_synonym bytes = "8 word list"
type_synonym size_t = "64 word"
type_synonym uint32_t = "32 word"
type_synonym uint64_t = "64 word"

text \<open>
  A JavaScript Number is a double: a finite value, which is a rational number, or NaN,
  or one of the two infinities. The model admits every rational as a finite value.
\<close>

datatype number = Finite rat | NaN | PosInfinity | NegInfinity

text \<open>A JavaScript value as the binding sees it. A Buffer is its byte contents.\<close>

datatype js_value =
    JSUndefined
  | JSString string
  | JSNumber number
  | JSBuffer bytes
  | JSFunction nat

text \<open>The Number that is the integer \<open>n\<close>.\<close>

abbreviation JSInt :: "int \<Rightarrow> js_value" where
  "JSInt n \<equiv> JSNumber (Finite (of_int n))"

datatype js_error = Error string | TypeError string

text \<open>
  What a call does besides returning: the allocations, the releases and the calls of
  primitives, in the order in which they happen. \<open>MallocNull n\<close> is a \<^verbatim>\<open>malloc(n)\<close>
  that returned \<^verbatim>\<open>NULL\<close>; \<open>RandomCall pos size\<close> is \<^verbatim>\<open>bcrypto_random(&data[pos], size)\<close>;
  \<open>PrfCall outlen\<close> is a call of the PRF inside the scrypt engine.
\<close>

datatype event =
    Malloc nat
  | MallocNull nat
  | Free
  | Pbkdf2Call
  | ScryptCall
  | EncipherCall
  | DecipherCall
  | RandomCall nat nat
  | QueueWorker
  | PrfCall nat

text \<open>How a call ends: it throws an error or it returns a value.\<close>

datatype completion = Threw js_error | Returned js_value

record outcome =
  events :: "event list"
  result :: completion

text \<open>\<open>random_fill\<close> writes into the caller's buffer: its outcome also holds the
  arguments as the caller sees them after the call.\<close>

record fill_outcome = outcome +
  info_after :: "js_value list"

text \<open>
  A primitive returns 0 when it fails. The reason of the failure stays inside the
  primitive; the model gives it a name (\<open>Failed reason\<close>) so that one can speak about
  it. No binding function inspects the reason.
\<close>

datatype 'a native = Failed string | Done 'a

text \<open>
  The environment of the binding layer: the allocator (\<open>malloc_ok n\<close> tells whether
  \<^verbatim>\<open>malloc(n)\<close> succeeds, \<open>heap_fill\<close> is the content of memory that nobody has written)
  and the primitives and macros declared outside \<^verbatim>\<open>bcrypto.cc\<close>. A primitive with an
  output pointer yields the bytes that it stored from that pointer on;
  \<^verbatim>\<open>bcrypto_random\<close> yields the stored bytes also when it fails. The scrypt engine
  also yields what it did while it ran: its allocations, its releases and its calls
  of the PRF.
\<close>

record env =
  malloc_ok :: "nat \<Rightarrow> bool"
  heap_fill :: "nat \<Rightarrow> 8 word"
  bcrypto_pbkdf2 :: "string \<Rightarrow> bytes \<Rightarrow> bytes \<Rightarrow> uint32_t \<Rightarrow> nat \<Rightarrow> bytes native"
  EVP_get_digestbyname :: "string \<Rightarrow> nat option"
  bcrypto_scrypt ::
    "bytes \<Rightarrow> bytes \<Rightarrow> uint64_t \<Rightarrow> uint64_t \<Rightarrow> uint64_t \<Rightarrow> nat \<Rightarrow> event list \<times> bytes native"
  BCRYPTO_ENCIPHER_SIZE :: "nat \<Rightarrow> uint32_t"
  BCRYPTO_DECIPHER_SIZE :: "nat \<Rightarrow> uint32_t"
  bcrypto_encipher :: "bytes \<Rightarrow> bytes \<Rightarrow> bytes \<Rightarrow> nat \<Rightarrow> (bytes \<times> uint32_t) native"
  bcrypto_decipher :: "bytes \<Rightarrow> bytes \<Rightarrow> bytes \<Rightarrow> nat \<Rightarrow> (bytes \<times> uint32_t) native"
  bcrypto_random :: "nat \<Rightarrow> bytes \<times> string option"

subsection \<open>The runtime's operations on values\<close>

fun IsString :: "js_value \<Rightarrow> bool" where
  "IsString (JSString s) = True"
| "IsString v = False"

fun IsNumber :: "js_value \<Rightarrow> bool" where
  "IsNumber (JSNumber n) = True"
| "IsNumber v = False"

fun IsFunction :: "js_value \<Rightarrow> bool" where
  "IsFunction (JSFunction f) = True"
| "IsFunction v = False"

text \<open>\<^verbatim>\<open>node::Buffer::HasInstance\<close>, \<^verbatim>\<open>node::Buffer::Data\<close> and \<^verbatim>\<open>node::Buffer::Length\<close>.
  The last two are only called on values that passed \<open>HasInstance\<close>. The length is a
  \<^verbatim>\<open>size_t\<close>: a buffer in memory is never longer than a \<^verbatim>\<open>size_t\<close> can tell, so the
  value is the length itself; the casts to \<^verbatim>\<open>uint32_t\<close> are written out where the
  source has them.\<close>

fun HasInstance :: "js_value \<Rightarrow> bool" where
  "HasInstance (JSBuffer b) = True"
| "HasInstance v = False"

fun Buffer_Data :: "js_value \<Rightarrow> bytes" where
  "Buffer_Data (JSBuffer b) = b"
| "Buffer_Data v = []"

definition Buffer_Length :: "js_value \<Rightarrow> nat" where
  "Buffer_Length v = length (Buffer_Data v)"

text \<open>\<^verbatim>\<open>Nan::Utf8String\<close>; only called on values that passed \<open>IsString\<close>.\<close>

fun Utf8String :: "js_value \<Rightarrow> string" where
  "Utf8String (JSString s) = s"
| "Utf8String v = []"

text \<open>The conversion of a finite double to an integer drops the fraction.\<close>

definition trunc :: "rat \<Rightarrow> int" where
  "trunc q = (if 0 \<le> q then \<lfloor>q\<rfloor> else \<lceil>q\<rceil>)"

text \<open>
  \<^verbatim>\<open>IntegerValue()\<close> yields an \<^verbatim>\<open>int64_t\<close>: NaN is 0, a value of \<open>2^63\<close> or more
  (and plus infinity) is the largest \<^verbatim>\<open>int64_t\<close>, a value of \<open>-2^63\<close> or less (and minus
  infinity) is the smallest, and any other value is truncated. The source casts the
  result to an unsigned 64-bit type, which keeps the bits. Only called on values that
  passed \<open>IsNumber\<close>.
\<close>

fun int64_of :: "number \<Rightarrow> int" where
  "int64_of (Finite q) =
     (if 2 ^ 63 \<le> q then 2 ^ 63 - 1 else if q \<le> - (2 ^ 63) then - (2 ^ 63) else trunc q)"
| "int64_of NaN = 0"
| "int64_of PosInfinity = 2 ^ 63 - 1"
| "int64_of NegInfinity = - (2 ^ 63)"

fun IntegerValue :: "js_value \<Rightarrow> 64 word" where
  "IntegerValue (JSNumber x) = word_of_int (int64_of x)"
| "IntegerValue v = 0"

text \<open>
  \<^verbatim>\<open>Uint32Value()\<close> is ECMAScript's ToUint32: NaN and the infinities are 0, any other
  value is truncated and reduced modulo \<open>2^32\<close>. Only called on values that passed
  \<open>IsNumber\<close>.
\<close>

fun uint32_of :: "number \<Rightarrow> uint32_t" where
  "uint32_of (Finite q) = word_of_int (trunc q)"
| "uint32_of x = 0"

fun Uint32Value :: "js_value \<Rightarrow> uint32_t" where
  "Uint32Value (JSNumber x) = uint32_of x"
| "Uint32Value v = 0"

subsection \<open>Memory\<close>

text \<open>The block that a successful \<^verbatim>\<open>malloc(n)\<close> returns: \<open>n\<close> bytes of whatever the
  heap held.\<close>

definition fresh_block :: "(nat \<Rightarrow> 8 word) \<Rightarrow> nat \<Rightarrow> bytes" where
  "fresh_block junk n = map junk [0..<n]"

definition fresh :: "env \<Rightarrow> nat \<Rightarrow> bytes" where
  "fresh env n = fresh_block (heap_fill env) n"

text \<open>Storing the bytes \<open>out\<close> into a block from offset \<open>pos\<close> on. The block keeps its
  size: the model holds no memory beyond the block's end.\<close>

definition write_at :: "bytes \<Rightarrow> nat \<Rightarrow> bytes \<Rightarrow> bytes" where
  "write_at blk pos out = take pos blk @ take (length blk - pos) out @ drop (pos + length out) blk"

text \<open>
  \<^verbatim>\<open>Nan::NewBuffer(p, size).ToLocalChecked()\<close>: a Buffer over the \<open>size\<close> bytes at \<open>p\<close>,
  where \<open>p\<close> points to the block \<open>blk\<close>. \<^verbatim>\<open>Nan::NewBuffer(char*, uint32_t)\<close> takes the
  size as a 32-bit value, so a wider size is narrowed at the call. The runtime is
  taken to deliver the Buffer. Bytes beyond the end of the block are whatever the
  memory holds there.
\<close>

definition NewBuffer :: "env \<Rightarrow> bytes \<Rightarrow> uint32_t \<Rightarrow> js_value" where
  "NewBuffer env blk size' =
     JSBuffer (map (\<lambda>i. if i < length blk then blk ! i else heap_fill env i) [0..<unat size'])"

definition throw :: "js_error \<Rightarrow> outcome" where
  "throw e = \<lparr>events = [], result = Threw e\<rparr>"

subsection \<open>pbkdf2 and pbkdf2\_async\<close>

definition pbkdf2 :: "env \<Rightarrow> js_value list \<Rightarrow> outcome" where
  "pbkdf2 env info =
    (if length info < 5 then throw (Error ''pbkdf2() requires arguments.'')
     else if \<not> IsString (info ! 0) then throw (TypeError ''First argument must be a string.'')
     else if \<not> HasInstance (info ! 1) then throw (TypeError ''Second argument must be a buffer.'')
     else if \<not> HasInstance (info ! 2) then throw (TypeError ''Third argument must be a buffer.'')
     else if \<not> IsNumber (info ! 3) then throw (TypeError ''Fourth argument must be a number.'')
     else if \<not> IsNumber (info ! 4) then throw (TypeError ''Fifth argument must be a number.'')
     else
       let name = Utf8String (info ! 0);
           data = Buffer_Data (info ! 1);
           datalen = (of_nat (Buffer_Length (info ! 1)) :: uint32_t);
           salt = Buffer_Data (info ! 2);
           saltlen = (of_nat (Buffer_Length (info ! 2)) :: uint32_t);
           iter = Uint32Value (info ! 3);
           keylen = Uint32Value (info ! 4)
       in if \<not> malloc_ok env (unat keylen)
          then \<lparr>events = [MallocNull (unat keylen)],
                result = Threw (Error ''Could not allocate key.'')\<rparr>
          else (case bcrypto_pbkdf2 env name (take (unat datalen) data) (take (unat saltlen) salt)
                       iter (unat keylen) of
                  Failed reason \<Rightarrow>
                    \<lparr>events = [Malloc (unat keylen), Pbkdf2Call, Free],
                     result = Threw (Error ''PBKDF2 failed.'')\<rparr>
                | Done out \<Rightarrow>
                    \<lparr>events = [Malloc (unat keylen), Pbkdf2Call],
                     result = Returned (NewBuffer env (write_at (fresh env (unat keylen)) 0 out) keylen)\<rparr>))"

definition pbkdf2_async :: "env \<Rightarrow> js_value list \<Rightarrow> outcome" where
  "pbkdf2_async env info =
    (if length info < 6 then throw (Error ''pbkdf2_async() requires arguments.'')
     else if \<not> IsString (info ! 0) then throw (TypeError ''First argument must be a string.'')
     else if \<not> HasInstance (info ! 1) then throw (TypeError ''Second argument must be a buffer.'')
     else if \<not> HasInstance (info ! 2) then throw (TypeError ''Third argument must be a buffer.'')
     else if \<not> IsNumber (info ! 3) then throw (TypeError ''Fourth argument must be a number.'')
     else if \<not> IsNumber (info ! 4) then throw (TypeError ''Fifth argument must be a number.'')
     else if \<not> IsFunction (info ! 5) then throw (TypeError ''Sixth argument must be a Function.'')
     else
       (case EVP_get_digestbyname env (Utf8String (info ! 0)) of
          None \<Rightarrow> throw (TypeError ''Could not allocate context.'')
        | Some md \<Rightarrow> \<lparr>events = [QueueWorker], result = Returned JSUndefined\<rparr>))"

text \<open>The call of the primitive that \<open>pbkdf2\<close> makes for an argument vector.\<close>

definition pbkdf2_call :: "env \<Rightarrow> js_value list \<Rightarrow> bytes native" where
  "pbkdf2_call env info =
     bcrypto_pbkdf2 env (Utf8String (info ! 0))
       (take (unat (of_nat (Buffer_Length (info ! 1)) :: uint32_t)) (Buffer_Data (info ! 1)))
       (take (unat (of_nat (Buffer_Length (info ! 2)) :: uint32_t)) (Buffer_Data (info ! 2)))
       (Uint32Value (info ! 3)) (unat (Uint32Value (info ! 4)))"

subsection \<open>scrypt\<close>

definition scrypt :: "env \<Rightarrow> js_value list \<Rightarrow> outcome" where
  "scrypt env info =
    (if length info < 6 then throw (Error ''scrypt() requires arguments.'')
     else if \<not> HasInstance (info ! 0) then throw (TypeError ''First argument must be a buffer.'')
     else if \<not> HasInstance (info ! 1) then throw (TypeError ''Second argument must be a buffer.'')
     else if \<not> IsNumber (info ! 2) then throw (TypeError ''Third argument must be a number.'')
     else if \<not> IsNumber (info ! 3) then throw (TypeError ''Fourth argument must be a number.'')
     else if \<not> IsNumber (info ! 4) then throw (TypeError ''Fifth argument must be a number.'')
     else if \<not> IsNumber (info ! 5) then throw (TypeError ''Sixth argument must be a number.'')
     else
       let pass = Buffer_Data (info ! 0);
           passlen = (of_nat (Buffer_Length (info ! 0)) :: uint32_t);
           salt = Buffer_Data (info ! 1);
           saltlen = Buffer_Length (info ! 1);
           N = IntegerValue (info ! 2);
           r = IntegerValue (info ! 3);
           p = IntegerValue (info ! 4);
           keylen = (IntegerValue (info ! 5) :: size_t)
       in if \<not> malloc_ok env (unat keylen)
          then \<lparr>events = [MallocNull (unat keylen)],
                result = Threw (Error ''Could not allocate key.'')\<rparr>
          else (case bcrypto_scrypt env (take (unat passlen) pass) (take saltlen salt)
                       N r p (unat keylen) of
                  (evs, Failed reason) \<Rightarrow>
                    \<lparr>events = [Malloc (unat keylen), ScryptCall] @ evs @ [Free],
                     result = Threw (Error ''Scrypt failed.'')\<rparr>
                | (evs, Done out) \<Rightarrow>
                    \<lparr>events = [Malloc (unat keylen), ScryptCall] @ evs,
                     result = Returned (NewBuffer env (write_at (fresh env (unat keylen)) 0 out)
                                (ucast keylen))\<rparr>))"

text \<open>The argument vectors that pass the checks of \<open>scrypt\<close>, the call of the engine
  that \<open>scrypt\<close> makes for an argument vector, and the length of the key it asks for.\<close>

definition scrypt_args_ok :: "js_value list \<Rightarrow> bool" where
  "scrypt_args_ok info \<longleftrightarrow>
     6 \<le> length info \<and> HasInstance (info ! 0) \<and> HasInstance (info ! 1) \<and>
     IsNumber (info ! 2) \<and> IsNumber (info ! 3) \<and> IsNumber (info ! 4) \<and> IsNumber (info ! 5)"

definition scrypt_keylen :: "js_value list \<Rightarrow> nat" where
  "scrypt_keylen info = unat (IntegerValue (info ! 5))"

definition scrypt_call :: "env \<Rightarrow> js_value list \<Rightarrow> event list \<times> bytes native" where
  "scrypt_call env info =
     bcrypto_scrypt env
       (take (unat (of_nat (Buffer_Length (info ! 0)) :: uint32_t)) (Buffer_Data (info ! 0)))
       (take (Buffer_Length (info ! 1)) (Buffer_Data (info ! 1)))
       (IntegerValue (info ! 2)) (IntegerValue (info ! 3)) (IntegerValue (info ! 4))
       (scrypt_keylen info)"

subsection \<open>encipher and decipher\<close>

text \<open>The cipher primitives receive the capacity of the output block in \<^verbatim>\<open>olen\<close> and
  store the number of bytes produced there.\<close>

definition encipher :: "env \<Rightarrow> js_value list \<Rightarrow> outcome" where
  "encipher env info =
    (if length info < 3 then throw (Error ''encipher() requires arguments.'')
     else if \<not> HasInstance (info ! 0) then throw (TypeError ''First argument must be a buffer.'')
     else if \<not> HasInstance (info ! 1) then throw (TypeError ''Second argument must be a buffer.'')
     else if \<not> HasInstance (info ! 2) then throw (TypeError ''Third argument must be a buffer.'')
     else
       let data = Buffer_Data (info ! 0);
           dlen = Buffer_Length (info ! 0);
           key = Buffer_Data (info ! 1);
           klen = Buffer_Length (info ! 1);
           iv = Buffer_Data (info ! 2);
           ilen = Buffer_Length (info ! 2)
       in if klen \<noteq> 32 then throw (Error ''Bad key size.'')
          else if ilen \<noteq> 16 then throw (Error ''Bad IV size.'')
          else
            let olen = BCRYPTO_ENCIPHER_SIZE env dlen
            in if \<not> malloc_ok env (unat olen)
               then \<lparr>events = [MallocNull (unat olen)],
                     result = Threw (Error ''Could not allocate ciphertext.'')\<rparr>
               else (case bcrypto_encipher env data key iv (unat olen) of
                       Failed reason \<Rightarrow>
                         \<lparr>events = [Malloc (unat olen), EncipherCall, Free],
                          result = Threw (Error ''Encipher failed.'')\<rparr>
                     | Done (out, olen') \<Rightarrow>
                         \<lparr>events = [Malloc (unat olen), EncipherCall],
                          result = Returned (NewBuffer env (write_at (fresh env (unat olen)) 0 out) olen')\<rparr>))"

definition decipher :: "env \<Rightarrow> js_value list \<Rightarrow> outcome" where
  "decipher env info =
    (if length info < 3 then throw (Error ''decipher() requires arguments.'')
     else if \<not> HasInstance (info ! 0) then throw (TypeError ''First argument must be a buffer.'')
     else if \<not> HasInstance (info ! 1) then throw (TypeError ''Second argument must be a buffer.'')
     else if \<not> HasInstance (info ! 2) then throw (TypeError ''Third argument must be a buffer.'')
     else
       let data = Buffer_Data (info ! 0);
           dlen = Buffer_Length (info ! 0);
           key = Buffer_Data (info ! 1);
           klen = Buffer_Length (info ! 1);
           iv = Buffer_Data (info ! 2);
           ilen = Buffer_Length (info ! 2)
       in if klen \<noteq> 32 then throw (Error ''Bad key size.'')
          else if ilen \<noteq> 16 then throw (Error ''Bad IV size.'')
          else
            let olen = BCRYPTO_DECIPHER_SIZE env dlen
            in if \<not> malloc_ok env (unat olen)
               then \<lparr>events = [MallocNull (unat olen)],
                     result = Threw (Error ''Could not allocate plaintext.'')\<rparr>
               else (case bcrypto_decipher env data key iv (unat olen) of
                       Failed reason \<Rightarrow>
                         \<lparr>events = [Malloc (unat olen), DecipherCall, Free],
                          result = Threw (Error ''Decipher failed.'')\<rparr>
                     | Done (out, olen') \<Rightarrow>
                         \<lparr>events = [Malloc (unat olen), DecipherCall],
                          result = Returned (NewBuffer env (write_at (fresh env (unat olen)) 0 out) olen')\<rparr>))"

subsection \<open>random\_fill\<close>

definition fill_throw :: "js_value list \<Rightarrow> js_error \<Rightarrow> fill_outcome" where
  "fill_throw info e = \<lparr>events = [], result = Threw e, info_after = info\<rparr>"

text \<open>
  \<^verbatim>\<open>len\<close> is a \<^verbatim>\<open>size_t\<close>, \<^verbatim>\<open>pos\<close> and \<^verbatim>\<open>size\<close> are \<^verbatim>\<open>uint32_t\<close>: the sum \<^verbatim>\<open>pos + size\<close>
  is computed in 32 bits and widened for the comparison with \<^verbatim>\<open>len\<close>; the mask
  \<^verbatim>\<open>0x80000000\<close> tests bit 31 of each of the three. The function
  returns the buffer object it was given, whose contents the primitive has changed.
\<close>

definition random_fill :: "env \<Rightarrow> js_value list \<Rightarrow> fill_outcome" where
  "random_fill env info =
    (if length info < 3 then fill_throw info (Error ''random_fill() requires arguments.'')
     else if \<not> HasInstance (info ! 0)
       then fill_throw info (TypeError ''First argument must be a buffer.'')
     else if \<not> IsNumber (info ! 1)
       then fill_throw info (TypeError ''Second argument must be a number.'')
     else if \<not> IsNumber (info ! 2)
       then fill_throw info (TypeError ''Third argument must be a number.'')
     else
       let data = Buffer_Data (info ! 0);
           len = Buffer_Length (info ! 0);
           pos = Uint32Value (info ! 1);
           size = Uint32Value (info ! 2)
       in if len AND 0x80000000 \<noteq> 0 \<or> pos AND 0x80000000 \<noteq> 0 \<or> size AND 0x80000000 \<noteq> 0
          then fill_throw info (Error ''Invalid range.'')
          else if unat (pos + size) > len
          then fill_throw info (Error ''Size exceeds length.'')
          else (case bcrypto_random env (unat size) of
                  (out, Some reason) \<Rightarrow>
                    \<lparr>events = [RandomCall (unat pos) (unat size)],
                     result = Threw (Error ''Could not get random bytes.''),
                     info_after = info[0 := JSBuffer (write_at data (unat pos) out)]\<rparr>
                | (out, None) \<Rightarrow>
                    \<lparr>events = [RandomCall (unat pos) (unat size)],
                     result = Returned (JSBuffer (write_at data (unat pos) out)),
                     info_after = info[0 := JSBuffer (write_at data (unat pos) out)]\<rparr>))"

section \<open>The primitives that are not part of bcrypto.cc\<close>

text \<open>
  Modelled from the spec: the parameter invariants of section 3, which the scrypt
  engine \<^verbatim>\<open>bcrypto_scrypt\<close> (\<^verbatim>\<open>scrypt/scrypt.h\<close>, not among the sources) has to check:
  \<open>N\<close> satisfies \<open>N & (N-1) == 0\<close> and \<open>N > 1\<close>, \<open>r\<close> and \<open>p\<close> are positive,
  \<open>r * p < 2^30\<close>, and \<open>128 * r * N\<close> and \<open>128 * r * p\<close> fit the size type.
\<close>

definition scrypt_params_ok :: "uint64_t \<Rightarrow> uint64_t \<Rightarrow> uint64_t \<Rightarrow> bool" where
  "scrypt_params_ok N r p \<longleftrightarrow>
     N AND (N - 1) = 0 \<and> 1 < N \<and> 0 < r \<and> 0 < p \<and> unat r * unat p < 2 ^ 30 \<and>
     128 * unat r * unat N < 2 ^ 64 \<and> 128 * unat r * unat p < 2 ^ 64"

text \<open>
  Modelled from the spec: the index that the mix phase of SMix computes (section 4.3),
  the last 64-bit little-endian word of the last block of the lane state, and the XOR of
  two lane states.
\<close>

fun le_value :: "bytes \<Rightarrow> nat" where
  "le_value [] = 0"
| "le_value (b # bs) = unat b + 256 * le_value bs"

definition integerify :: "bytes \<Rightarrow> nat" where
  "integerify X = le_value (drop (length X - 8) X)"

definition xor_bytes :: "bytes \<Rightarrow> bytes \<Rightarrow> bytes" where
  "xor_bytes X Y = map (\<lambda>(a, b). a XOR b) (zip X Y)"

text \<open>
  Modelled from the spec: SMix (section 4.3) on one lane \<open>X\<close>, with a scratch array \<open>V\<close>
  of \<open>N\<close> entries that holds whatever the memory held when it was allocated. The fill
  phase runs BlockMix \<open>N\<close> times and stores the current lane state into entry \<open>i\<close>
  before mixing it forward. The mix phase runs \<open>N\<close> more iterations; each computes
  the index \<open>j\<close> from the current state modulo \<open>N\<close>, XORs entry \<open>j\<close> into the state and
  applies BlockMix again. BlockMix (section 4.2), a pure function of the lane built
  from the core mixer, is the parameter \<open>bm\<close>.
\<close>

primrec smix_fill :: "(bytes \<Rightarrow> bytes) \<Rightarrow> nat \<Rightarrow> bytes list \<Rightarrow> bytes \<Rightarrow> bytes list \<times> bytes" where
  "smix_fill bm 0 V X = (V, X)"
| "smix_fill bm (Suc i) V X =
     (case smix_fill bm i V X of (V', X') \<Rightarrow> (V'[i := X'], bm X'))"

primrec smix_mix :: "(bytes \<Rightarrow> bytes) \<Rightarrow> nat \<Rightarrow> bytes list \<Rightarrow> nat \<Rightarrow> bytes \<Rightarrow> bytes" where
  "smix_mix bm N V 0 X = X"
| "smix_mix bm N V (Suc i) X =
     (let X' = smix_mix bm N V i X
      in bm (xor_bytes X' (V ! (integerify X' mod N))))"

definition SMix :: "(bytes \<Rightarrow> bytes) \<Rightarrow> nat \<Rightarrow> bytes list \<Rightarrow> bytes \<Rightarrow> bytes" where
  "SMix bm N V X = (case smix_fill bm N V X of (V', X') \<Rightarrow> smix_mix bm N V' N X')"

text \<open>
  Modelled from the spec: the scratch array of a lane as it comes from the allocator,
  \<open>N\<close> entries of \<open>w = 128 * r\<close> bytes each (section 3), and the partition of the
  expanded buffer \<open>B\<close> into \<open>p\<close> lanes of \<open>w\<close> bytes each.
\<close>

definition scratch :: "(nat \<Rightarrow> 8 word) \<Rightarrow> nat \<Rightarrow> nat \<Rightarrow> bytes list" where
  "scratch junk N w = map (\<lambda>i. map junk [i * w..<i * w + w]) [0..<N]"

fun lanes :: "nat \<Rightarrow> nat \<Rightarrow> bytes \<Rightarrow> bytes list" where
  "lanes 0 w B = []"
| "lanes (Suc k) w B = take w B # lanes k w (drop w B)"

text \<open>
  Modelled from the spec: SMix run on every lane in turn (section 4.4), each lane with
  a scratch array of \<open>128 * r * N\<close> bytes allocated for it and released after it;
  a scratch array that cannot be allocated fails the run with a resource error.
\<close>

fun mix_lanes ::
  "(nat \<Rightarrow> bool) \<Rightarrow> (nat \<Rightarrow> 8 word) \<Rightarrow> (bytes \<Rightarrow> bytes) \<Rightarrow> nat \<Rightarrow> nat \<Rightarrow> bytes list \<Rightarrow>
   event list \<times> bytes native" where
  "mix_lanes alloc junk bm N w [] = ([], Done [])"
| "mix_lanes alloc junk bm N w (l # ls) =
     (if \<not> alloc (w * N) then ([MallocNull (w * N)], Failed ''out of memory'')
      else
        (case mix_lanes alloc junk bm N w ls of
           (evs, Failed reason) \<Rightarrow> ([Malloc (w * N), Free] @ evs, Failed reason)
         | (evs, Done ms) \<Rightarrow>
             ([Malloc (w * N), Free] @ evs, Done (SMix bm N (scratch junk N w) l @ ms))))"

text \<open>
  Modelled from the spec: the scrypt driver of section 4.4, which stands for the
  missing \<^verbatim>\<open>bcrypto_scrypt\<close>. It validates the parameters and fails at once with a
  parameter error on a violation, before it allocates or computes anything. Otherwise
  it allocates the expanded buffer of \<open>128 * r * p\<close> bytes, fills it with the PRF from
  password and salt, runs SMix on each lane, derives the key of \<open>keylen\<close> bytes with
  the PRF from the mixed buffer used as salt, and releases the buffer. A failure of
  an allocation or of the PRF is handed on. The allocator \<open>alloc\<close>, the content
  \<open>junk\<close> of fresh memory, the PRF (PBKDF2-HMAC-SHA256, section 6) and BlockMix are
  parameters. The result holds what the engine did and the key it stored.
\<close>

definition bcrypto_scrypt_spec ::
  "(nat \<Rightarrow> bool) \<Rightarrow> (nat \<Rightarrow> 8 word) \<Rightarrow> (bytes \<Rightarrow> bytes \<Rightarrow> nat \<Rightarrow> nat \<Rightarrow> bytes native) \<Rightarrow>
   (bytes \<Rightarrow> bytes) \<Rightarrow>
   bytes \<Rightarrow> bytes \<Rightarrow> uint64_t \<Rightarrow> uint64_t \<Rightarrow> uint64_t \<Rightarrow> nat \<Rightarrow> event list \<times> bytes native" where
  "bcrypto_scrypt_spec alloc junk PRF bm pass salt N r p keylen =
    (if \<not> scrypt_params_ok N r p then ([], Failed ''parameter error'')
     else
       let blen = 128 * unat r * unat p
       in if \<not> alloc blen then ([MallocNull blen], Failed ''out of memory'')
          else
            (case PRF pass salt 1 blen of
               Failed reason \<Rightarrow> ([Malloc blen, PrfCall blen, Free], Failed reason)
             | Done out \<Rightarrow>
                 (case mix_lanes alloc junk bm (unat N) (128 * unat r)
                         (lanes (unat p) (128 * unat r) (write_at (fresh_block junk blen) 0 out)) of
                    (evs, Failed reason) \<Rightarrow>
                      ([Malloc blen, PrfCall blen] @ evs @ [Free], Failed reason)
                  | (evs, Done B') \<Rightarrow>
                      ([Malloc blen, PrfCall blen] @ evs @ [PrfCall keylen, Free],
                       PRF pass B' 1 keylen))))"

text \<open>
  Modelled from the spec: the randomness dependency \<^verbatim>\<open>bcrypto_random\<close>
  (\<^verbatim>\<open>random/random.h\<close>, not among the sources), section 6: it fills the \<open>count\<close> bytes it
  is given with bytes of the secure random source, and fails when the entropy source
  is unavailable.
\<close>

definition bcrypto_random_spec :: "bool \<Rightarrow> (nat \<Rightarrow> 8 word) \<Rightarrow> nat \<Rightarrow> bytes \<times> string option" where
  "bcrypto_random_spec available source count =
     (if available then (map source [0..<count], None)
      else ([], Some ''entropy source unavailable''))"

section \<open>An environment to run the functions in\<close>

text \<open>
  Stand-ins for the primitives, used to evaluate the binding functions on concrete
  arguments. They are not the real algorithms: \<open>demo_prf\<close> returns \<open>outlen\<close> bytes
  that depend on the lengths of its inputs, \<open>demo_blockmix\<close> reverses a lane, the only
  digest known is \<open>sha256\<close>, the cipher pads with zeros, and the random source
  counts from one. The allocator grants blocks of up to \<open>2^33\<close> bytes.
\<close>

definition demo_prf :: "bytes \<Rightarrow> bytes \<Rightarrow> nat \<Rightarrow> nat \<Rightarrow> bytes native" where
  "demo_prf pw s iter outlen = Done (map (\<lambda>i. of_nat (length pw + length s + i)) [0..<outlen])"

definition demo_blockmix :: "bytes \<Rightarrow> bytes" where
  "demo_blockmix lane = rev lane"

definition demo_cipher :: "bytes \<Rightarrow> bytes \<Rightarrow> bytes \<Rightarrow> nat \<Rightarrow> (bytes \<times> uint32_t) native" where
  "demo_cipher data key iv olen = Done (data @ map (\<lambda>i. 0) [length data..<olen], of_nat olen)"

definition demo_env :: env where
  "demo_env =
    \<lparr>malloc_ok = (\<lambda>n. n \<le> 2 ^ 33),
     heap_fill = (\<lambda>i. 0xAA),
     bcrypto_pbkdf2 = (\<lambda>name data salt iter keylen.
        if name = ''sha256'' then demo_prf data salt (unat iter) keylen
        else Failed ''unsupported digest''),
     EVP_get_digestbyname = (\<lambda>name. if name = ''sha256'' then Some 0 else None),
     bcrypto_scrypt = bcrypto_scrypt_spec (\<lambda>n. n \<le> 2 ^ 33) (\<lambda>i. 0xAA) demo_prf demo_blockmix,
     BCRYPTO_ENCIPHER_SIZE = (\<lambda>dlen. of_nat dlen + 16),
     BCRYPTO_DECIPHER_SIZE = (\<lambda>dlen. of_nat dlen),
     bcrypto_encipher = demo_cipher,
     bcrypto_decipher = demo_cipher,
     bcrypto_random = bcrypto_random_spec True (\<lambda>i. of_nat i + 1)\<rparr>"

section \<open>Properties\<close>

subsection \<open>Arithmetic of the conversions\<close>

lemma length_write_at: "length (write_at blk pos out) = length blk"
  by (simp add: write_at_def)

lemma length_fresh_block: "length (fresh_block junk n) = n"
  by (simp add: fresh_block_def)

lemma length_fresh: "length (fresh env n) = n"
  by (simp add: fresh_def fresh_block_def)

lemma unat_word_of_int_64: "0 \<le> k \<Longrightarrow> k < 2 ^ 63 \<Longrightarrow> unat (word_of_int k :: 64 word) = nat k"
  by (simp add: unat_eq_nat_uint uint_word_of_int take_bit_eq_mod)

lemma unat_word_of_int_32: "unat (word_of_int k :: 32 word) = nat (k mod 2 ^ 32)"
  by (simp add: unat_eq_nat_uint uint_word_of_int take_bit_eq_mod)

lemma write_at_0_full: "length out = length blk \<Longrightarrow> write_at blk 0 out = out"
  by (simp add: write_at_def)

lemma nat_and_pred_pow2:
  fixes n :: nat
  shows "0 < n \<Longrightarrow> n AND (n - 1) = 0 \<Longrightarrow> \<exists>e. n = 2 ^ e"
proof (induction n rule: less_induct)
  case (less n)
  show ?case
  proof (cases "n = 1")
    case True
    then have "n = 2 ^ 0" by simp
    then show ?thesis by blast
  next
    case False
    with less.prems have n2: "2 \<le> n" by simp
    have unf: "n AND (n - 1) = (n mod 2) * ((n - 1) mod 2) + 2 * ((n div 2) AND ((n - 1) div 2))"
      using n2 by (subst and_nat_unfold) simp
    with less.prems have z: "(n div 2) AND ((n - 1) div 2) = 0" by simp
    show ?thesis
    proof (cases "even n")
      case True
      then have "(n - 1) div 2 = n div 2 - 1" using n2 by presburger
      with z have "(n div 2) AND (n div 2 - 1) = 0" by simp
      moreover have "0 < n div 2" "n div 2 < n" using n2 by simp_all
      ultimately obtain e where "n div 2 = 2 ^ e" using less.IH by blast
      with True have "n = 2 ^ (Suc e)" by auto
      then show ?thesis by blast
    next
      case False
      then have "(n - 1) div 2 = n div 2" using n2 by presburger
      with z have "n div 2 = 0" by simp
      with n2 show ?thesis by simp
    qed
  qed
qed

lemma word_and_pred_pow2:
  fixes N :: "64 word"
  assumes "N AND (N - 1) = 0" and "1 < N"
  shows "\<exists>e. unat N = 2 ^ e"
proof -
  from assms(2) have nz: "N \<noteq> 0" by auto
  have "unat (N AND (N - 1)) = unat N AND unat (N - 1)"
    by (simp add: unsigned_and_eq)
  also have "unat (N - 1) = unat N - 1" using nz by (simp add: unat_minus_one)
  finally have "unat N AND (unat N - 1) = 0" using assms(1) by simp
  moreover have "0 < unat N" using nz by (simp add: unat_gt_0)
  ultimately show ?thesis by (rule nat_and_pred_pow2[rotated])
qed

lemma bit31_nat: "n < 2 ^ 32 \<Longrightarrow> (n AND 0x80000000 \<noteq> 0) = (2 ^ 31 \<le> n)" for n :: nat
proof -
  assume b: "n < 2 ^ 32"
  have "(n AND 2 ^ 31 = 0) = (\<not> bit n 31)" by (rule and_exp_eq_0_iff_not_bit)
  moreover have "bit n 31 = odd (n div 2 ^ 31)" by (simp add: bit_iff_odd)
  moreover have "odd (n div 2 ^ 31) = (2 ^ 31 \<le> n)"
  proof -
    have "n div 2 ^ 31 < 2" using b by (simp add: less_mult_imp_div_less)
    then have "n div 2 ^ 31 = 0 \<or> n div 2 ^ 31 = 1" by arith
    then show ?thesis by (auto simp add: div_eq_0_iff le_div_geq)
  qed
  ultimately show ?thesis by simp
qed

lemma bit31_word: "(w AND 0x80000000 \<noteq> 0) = (2 ^ 31 \<le> unat w)" for w :: "32 word"
proof -
  have "unat (w AND 0x80000000) = unat w AND 0x80000000"
    by (simp add: unsigned_and_eq)
  then have "(w AND 0x80000000 \<noteq> 0) = (unat w AND 0x80000000 \<noteq> 0)"
    by (metis unat_eq_0)
  moreover have "unat w < 2 ^ 32" using unsigned_less[of w] by simp
  ultimately show ?thesis using bit31_nat[of "unat w"] by auto
qed

lemma trunc_of_int: "trunc (of_int n) = n"
  by (simp add: trunc_def)

lemma trunc_numeral: "trunc (numeral k) = numeral k"
  by (simp add: trunc_def)

lemma trunc_0: "trunc 0 = 0"
  by (simp add: trunc_def)

lemma trunc_1: "trunc 1 = 1"
  by (simp add: trunc_def)

lemmas trunc_simps = trunc_of_int trunc_numeral trunc_0 trunc_1

lemma Uint32Value_JSInt: "Uint32Value (JSInt n) = word_of_int n"
  by (simp add: trunc_of_int)

lemma int64_of_int:
  "- (2 ^ 63) \<le> n \<Longrightarrow> n < 2 ^ 63 \<Longrightarrow> int64_of (Finite (of_int n)) = n"
proof -
  assume a: "- (2 ^ 63) \<le> n" "n < 2 ^ 63"
  have "(2 ^ 63 \<le> (of_int n :: rat)) = (2 ^ 63 \<le> n)"
    by (metis of_int_le_iff of_int_numeral of_int_power)
  moreover have "((of_int n :: rat) \<le> - (2 ^ 63)) = (n \<le> - (2 ^ 63))"
    by (metis of_int_le_iff of_int_minus of_int_numeral of_int_power)
  ultimately show ?thesis using a by (auto simp add: trunc_of_int)
qed

lemma IntegerValue_JSInt:
  "- (2 ^ 63) \<le> n \<Longrightarrow> n < 2 ^ 63 \<Longrightarrow> IntegerValue (JSInt n) = word_of_int n"
  by (simp only: IntegerValue.simps int64_of_int)

lemma NewBuffer_within:
  "unat sz \<le> length blk \<Longrightarrow> NewBuffer env blk sz = JSBuffer (take (unat sz) blk)"
  by (auto simp add: NewBuffer_def list_eq_iff_nth_eq)

lemma unat_ucast_64_32: "unat (ucast (w :: 64 word) :: 32 word) = unat w mod 2 ^ 32"
  by (simp add: unsigned_ucast_eq take_bit_eq_mod)

subsection \<open>The paths through scrypt\<close>

lemma scrypt_ill_typed: "\<not> scrypt_args_ok info \<Longrightarrow> \<exists>e. scrypt env info = throw e"
  by (auto simp add: scrypt_def scrypt_args_ok_def)

lemma scrypt_well_typed:
  "scrypt_args_ok info \<Longrightarrow>
   scrypt env info =
     (if \<not> malloc_ok env (scrypt_keylen info)
      then \<lparr>events = [MallocNull (scrypt_keylen info)],
            result = Threw (Error ''Could not allocate key.'')\<rparr>
      else (case scrypt_call env info of
              (evs, Failed reason) \<Rightarrow>
                \<lparr>events = [Malloc (scrypt_keylen info), ScryptCall] @ evs @ [Free],
                 result = Threw (Error ''Scrypt failed.'')\<rparr>
            | (evs, Done out) \<Rightarrow>
                \<lparr>events = [Malloc (scrypt_keylen info), ScryptCall] @ evs,
                 result = Returned (NewBuffer env (write_at (fresh env (scrypt_keylen info)) 0 out)
                            (ucast (IntegerValue (info ! 5))))\<rparr>))"
  by (simp add: scrypt_def scrypt_args_ok_def scrypt_call_def scrypt_keylen_def Let_def
      cong: native.case_cong prod.case_cong)

lemma scrypt_returned_key:
  "NewBuffer env (write_at (fresh env (scrypt_keylen info)) 0 out) (ucast (IntegerValue (info ! 5))) =
     JSBuffer (take (scrypt_keylen info mod 2 ^ 32) (write_at (fresh env (scrypt_keylen info)) 0 out))"
proof -
  have "unat (ucast (IntegerValue (info ! 5)) :: 32 word) = scrypt_keylen info mod 2 ^ 32"
    by (simp add: scrypt_keylen_def unat_ucast_64_32)
  moreover have "scrypt_keylen info mod 2 ^ 32 \<le> length (write_at (fresh env (scrypt_keylen info)) 0 out)"
    by (simp add: length_write_at length_fresh)
  ultimately show ?thesis by (simp add: NewBuffer_within)
qed

lemma scrypt_cases:
  "(\<exists>e. result (scrypt env info) = Threw e) \<or>
   (malloc_ok env (scrypt_keylen info) \<and>
    (\<exists>evs out. scrypt_call env info = (evs, Done out) \<and>
      scrypt env info = \<lparr>events = [Malloc (scrypt_keylen info), ScryptCall] @ evs,
         result = Returned (JSBuffer (take (scrypt_keylen info mod 2 ^ 32)
                    (write_at (fresh env (scrypt_keylen info)) 0 out)))\<rparr>))"
proof (cases "scrypt_args_ok info")
  case False
  from scrypt_ill_typed[OF this, of env] show ?thesis by (auto simp add: throw_def)
next
  case True
  show ?thesis
  proof (cases "malloc_ok env (scrypt_keylen info)")
    case False
    with True show ?thesis by (simp add: scrypt_well_typed)
  next
    case ok: True
    obtain evs r where c: "scrypt_call env info = (evs, r)" by (cases "scrypt_call env info")
    show ?thesis
    proof (cases r)
      case (Failed reason)
      with True ok c show ?thesis by (simp add: scrypt_well_typed)
    next
      case (Done out)
      with True ok c show ?thesis by (simp add: scrypt_well_typed scrypt_returned_key)
    qed
  qed
qed


subsection \<open>SMix does not read what it has not written\<close>

lemma smix_fill_closed:
  "k \<le> length V \<Longrightarrow>
   smix_fill bm k V X = (map (\<lambda>i. (bm ^^ i) X) [0..<k] @ drop k V, (bm ^^ k) X)"
proof (induction k)
  case 0
  then show ?case by simp
next
  case (Suc k)
  then have k: "k < length V" by simp
  have d: "drop k V = V ! k # drop (Suc k) V" using k by (simp add: Cons_nth_drop_Suc)
  have "(map (\<lambda>i. (bm ^^ i) X) [0..<k] @ drop k V)[k := (bm ^^ k) X] =
      map (\<lambda>i. (bm ^^ i) X) [0..<k] @ (bm ^^ k) X # drop (Suc k) V"
    by (simp add: list_update_append d)
  with Suc show ?case by simp
qed

lemma SMix_closed:
  "length V = N \<Longrightarrow>
   SMix bm N V X = smix_mix bm N (map (\<lambda>i. (bm ^^ i) X) [0..<N]) N ((bm ^^ N) X)"
  by (simp add: SMix_def smix_fill_closed)

lemma length_scratch: "length (scratch junk N w) = N"
  by (simp add: scratch_def)

lemma SMix_scratch:
  "SMix bm N (scratch junk N w) X = smix_mix bm N (map (\<lambda>i. (bm ^^ i) X) [0..<N]) N ((bm ^^ N) X)"
  by (simp add: SMix_closed length_scratch)

lemma length_funpow:
  fixes bm :: "bytes \<Rightarrow> bytes"
  shows "(\<And>Y. length (bm Y) = length Y) \<Longrightarrow> length ((bm ^^ i) X) = length X"
  by (induction i) simp_all

lemma length_smix_mix:
  assumes bm: "\<And>Y. length (bm Y) = length Y"
    and V: "\<And>j. j < N \<Longrightarrow> length (V ! j) = length X"
    and N: "0 < N"
  shows "length (smix_mix bm N V i X) = length X"
proof (induction i)
  case 0
  then show ?case by simp
next
  case (Suc i)
  have "integerify (smix_mix bm N V i X) mod N < N" using N by simp
  then have "length (V ! (integerify (smix_mix bm N V i X) mod N)) = length X" by (rule V)
  with Suc show ?case by (simp add: Let_def bm xor_bytes_def)
qed

lemma length_SMix_scratch:
  assumes bm: "\<And>Y. length (bm Y) = length Y" and N: "0 < N"
  shows "length (SMix bm N (scratch junk N w) X) = length X"
proof -
  have "length (smix_mix bm N (map (\<lambda>i. (bm ^^ i) X) [0..<N]) N ((bm ^^ N) X)) =
      length ((bm ^^ N) X)"
    by (rule length_smix_mix) (simp_all add: bm N length_funpow)
  then show ?thesis by (simp add: SMix_scratch length_funpow bm)
qed

lemma mix_lanes_junk:
  assumes "mix_lanes alloc1 junk1 bm N w ls = (evs1, Done m1)"
    and "mix_lanes alloc2 junk2 bm N w ls = (evs2, Done m2)"
  shows "m1 = m2"
  using assms
proof (induction ls arbitrary: evs1 evs2 m1 m2)
  case Nil
  then show ?case by simp
next
  case (Cons l ls)
  from Cons.prems(1) obtain e1 n1 where a1: "mix_lanes alloc1 junk1 bm N w ls = (e1, Done n1)"
    and m1: "m1 = SMix bm N (scratch junk1 N w) l @ n1"
    by (auto split: if_splits prod.splits native.splits)
  from Cons.prems(2) obtain e2 n2 where a2: "mix_lanes alloc2 junk2 bm N w ls = (e2, Done n2)"
    and m2: "m2 = SMix bm N (scratch junk2 N w) l @ n2"
    by (auto split: if_splits prod.splits native.splits)
  from Cons.IH[OF a1 a2] m1 m2 show ?case by (simp add: SMix_scratch)
qed

lemma spec_engine_junk:
  assumes PRF: "\<forall>pw s it n out. PRF pw s it n = Done out \<longrightarrow> length out = n"
    and "bcrypto_scrypt_spec alloc1 junk1 PRF bm pass salt N r p keylen = (evs1, Done k1)"
    and "bcrypto_scrypt_spec alloc2 junk2 PRF bm pass salt N r p keylen = (evs2, Done k2)"
  shows "k1 = k2 \<and> length k1 = keylen"
proof -
  let ?blen = "128 * unat r * unat p"
  from assms(2) obtain out where o: "PRF pass salt 1 ?blen = Done out"
    by (auto simp add: bcrypto_scrypt_spec_def Let_def split: if_splits native.splits)
  with PRF have lo: "length out = ?blen" by blast
  have B1: "write_at (fresh_block junk1 ?blen) 0 out = out"
    and B2: "write_at (fresh_block junk2 ?blen) 0 out = out"
    using lo by (simp_all add: write_at_0_full length_fresh_block)
  let ?ls = "lanes (unat p) (128 * unat r) out"
  from assms(2) o B1 obtain e1 m1 where a1:
      "mix_lanes alloc1 junk1 bm (unat N) (128 * unat r) ?ls = (e1, Done m1)"
    and k1: "PRF pass m1 1 keylen = Done k1"
    by (auto simp add: bcrypto_scrypt_spec_def Let_def split: if_splits native.splits prod.splits)
  from assms(3) o B2 obtain e2 m2 where a2:
      "mix_lanes alloc2 junk2 bm (unat N) (128 * unat r) ?ls = (e2, Done m2)"
    and k2: "PRF pass m2 1 keylen = Done k2"
    by (auto simp add: bcrypto_scrypt_spec_def Let_def split: if_splits native.splits prod.splits)
  from mix_lanes_junk[OF a1 a2] k1 k2 have "k1 = k2" by simp
  moreover from PRF k1 have "length k1 = keylen" by blast
  ultimately show ?thesis by simp
qed

lemma demo_engine:
  "bcrypto_scrypt demo_env [1, 2] [3] 2 1 1 n =
     ([Malloc 128, PrfCall 128, Malloc 256, Free, PrfCall n, Free],
      Done (map (\<lambda>i. of_nat (130 + i)) [0..<n]))"
  by (simp add: demo_env_def bcrypto_scrypt_spec_def scrypt_params_ok_def demo_prf_def
      demo_blockmix_def write_at_0_full length_fresh_block length_SMix_scratch)

subsection \<open>A run in the stand-in environment\<close>

lemma demo_scrypt:
  assumes "0 \<le> k" and "k \<le> 2 ^ 33"
  shows "scrypt demo_env [JSBuffer [1, 2], JSBuffer [3], JSInt 2, JSInt 1, JSInt 1, JSInt k] =
     \<lparr>events = [Malloc (nat k), ScryptCall, Malloc 128, PrfCall 128, Malloc 256, Free,
                 PrfCall (nat k), Free],
      result = Returned (JSBuffer (map (\<lambda>i. of_nat (130 + i)) [0..<nat k mod 2 ^ 32]))\<rparr>"
proof -
  let ?info = "[JSBuffer [1, 2], JSBuffer [3], JSInt 2, JSInt 1, JSInt 1, JSInt k]"
  have ok: "scrypt_args_ok ?info" by (simp add: scrypt_args_ok_def)
  have kv: "IntegerValue (JSInt k) = word_of_int k"
    by (rule IntegerValue_JSInt) (use assms in auto)
  have kl: "scrypt_keylen ?info = nat k"
    using assms kv by (simp add: scrypt_keylen_def unat_word_of_int_64 del: IntegerValue.simps)
  have m: "malloc_ok demo_env (nat k)" using assms by (simp add: demo_env_def)
  have c: "scrypt_call demo_env ?info =
     ([Malloc 128, PrfCall 128, Malloc 256, Free, PrfCall (nat k), Free],
      Done (map (\<lambda>i. of_nat (130 + i)) [0..<nat k]))"
    unfolding scrypt_call_def kl
    by (simp add: Buffer_Length_def trunc_simps demo_engine)
  have w: "write_at (fresh demo_env (nat k)) 0 (map (\<lambda>i. of_nat (130 + i)) [0..<nat k]) =
      map (\<lambda>i. of_nat (130 + i) :: 8 word) [0..<nat k]"
    by (simp add: write_at_0_full length_fresh)
  have t: "take (nat k mod 2 ^ 32) (map (\<lambda>i. of_nat (130 + i) :: 8 word) [0..<nat k]) =
      map (\<lambda>i. of_nat (130 + i)) [0..<nat k mod 2 ^ 32]"
    by (simp add: take_map)
  have "scrypt demo_env ?info =
      \<lparr>events = [Malloc (nat k), ScryptCall] @
         [Malloc 128, PrfCall 128, Malloc 256, Free, PrfCall (nat k), Free],
       result = Returned (NewBuffer demo_env (write_at (fresh demo_env (nat k)) 0
          (map (\<lambda>i. of_nat (130 + i)) [0..<nat k])) (ucast (IntegerValue (?info ! 5))))\<rparr>"
    unfolding scrypt_well_typed[OF ok] kl c using m by simp
  also have "NewBuffer demo_env (write_at (fresh demo_env (nat k)) 0
          (map (\<lambda>i. of_nat (130 + i)) [0..<nat k])) (ucast (IntegerValue (?info ! 5))) =
      JSBuffer (take (nat k mod 2 ^ 32) (write_at (fresh demo_env (nat k)) 0
          (map (\<lambda>i. of_nat (130 + i)) [0..<nat k])))"
    using scrypt_returned_key[of demo_env ?info] unfolding kl .
  finally show ?thesis unfolding w t by simp
qed

lemma upt_2: "[0..<2] = [0, 1]"
  by (simp add: upt_rec)

subsection \<open>scrypt: a key or an error\<close>







subsection \<open>scrypt: invalid parameters\<close>

lemma spec_engine_rejects:
  "\<not> scrypt_params_ok N r p \<Longrightarrow>
   bcrypto_scrypt_spec alloc junk PRF bm pass salt N r p keylen = ([], Failed ''parameter error'')"
  by (simp add: bcrypto_scrypt_spec_def)

lemma params_violation:
  assumes "(\<nexists>e. unat N = 2 ^ e) \<or> N \<le> 1 \<or> r = 0 \<or> p = 0 \<or> 2 ^ 30 \<le> unat r * unat p"
  shows "\<not> scrypt_params_ok N r p"
proof
  assume ok: "scrypt_params_ok N r p"
  then have "N AND (N - 1) = 0" "1 < N" "0 < r" "0 < p" "unat r * unat p < 2 ^ 30"
    by (simp_all add: scrypt_params_ok_def)
  moreover from this have "\<exists>e. unat N = 2 ^ e" by (simp add: word_and_pred_pow2)
  ultimately show False using assms by (auto simp add: not_le[symmetric])
qed

text \<open>
  Claim C1, as the code has it. A call of \<open>scrypt\<close> with well-typed arguments whose
  parameters violate an invariant (\<open>N\<close> not a power of two, \<open>N \<le> 1\<close>, \<open>r = 0\<close>,
  \<open>p = 0\<close> or \<open>r * p \<ge> 2^30\<close>) first asks for the key buffer. When that allocation
  fails the call throws \<open>Could not allocate key.\<close> and the engine is not called.
  Otherwise the engine is called and fails with a parameter error without having
  allocated anything or called the PRF: between the call of the engine and the release
  of the key buffer nothing happens. The call throws \<open>Scrypt failed.\<close>; no key is
  returned.
\<close>

theorem scrypt_invalid_parameters:
  assumes "scrypt_args_ok info"
    and "bcrypto_scrypt env = bcrypto_scrypt_spec alloc junk PRF bm"
    and "N = IntegerValue (info ! 2)" and "r = IntegerValue (info ! 3)"
    and "p = IntegerValue (info ! 4)"
    and "(\<nexists>e. unat N = 2 ^ e) \<or> N \<le> 1 \<or> r = 0 \<or> p = 0 \<or> 2 ^ 30 \<le> unat r * unat p"
  shows "scrypt_call env info = ([], Failed ''parameter error'') \<and>
     scrypt env info =
       (if malloc_ok env (scrypt_keylen info)
        then \<lparr>events = [Malloc (scrypt_keylen info), ScryptCall, Free],
              result = Threw (Error ''Scrypt failed.'')\<rparr>
        else \<lparr>events = [MallocNull (scrypt_keylen info)],
              result = Threw (Error ''Could not allocate key.'')\<rparr>)"
proof -
  have "\<not> scrypt_params_ok N r p" using assms(6) by (rule params_violation)
  then have c: "scrypt_call env info = ([], Failed ''parameter error'')"
    using assms(2-5) by (simp add: scrypt_call_def spec_engine_rejects)
  then show ?thesis using assms(1) by (simp add: scrypt_well_typed)
qed

theorem scrypt_invalid_parameters_witness:
  "scrypt_args_ok [JSBuffer [], JSBuffer [], JSInt 3, JSInt 1, JSInt 1, JSInt 64] \<and>
   (\<nexists>e. unat (3 :: 64 word) = 2 ^ e) \<and>
   scrypt_call demo_env [JSBuffer [], JSBuffer [], JSInt 3, JSInt 1, JSInt 1, JSInt 64] =
     ([], Failed ''parameter error'') \<and>
   scrypt demo_env [JSBuffer [], JSBuffer [], JSInt 3, JSInt 1, JSInt 1, JSInt 64] =
     \<lparr>events = [Malloc 64, ScryptCall, Free], result = Threw (Error ''Scrypt failed.'')\<rparr>"
proof -
  let ?info = "[JSBuffer [], JSBuffer [], JSInt 3, JSInt 1, JSInt 1, JSInt 64]"
  have ok: "scrypt_args_ok ?info" by (simp add: scrypt_args_ok_def)
  have eng: "bcrypto_scrypt demo_env =
      bcrypto_scrypt_spec (\<lambda>n. n \<le> 2 ^ 33) (\<lambda>i. 0xAA) demo_prf demo_blockmix"
    by (simp add: demo_env_def)
  have np: "\<nexists>e. unat (3 :: 64 word) = 2 ^ e"
  proof
    assume "\<exists>e. unat (3 :: 64 word) = 2 ^ e"
    then obtain e :: nat where e: "(3 :: nat) = 2 ^ e" by auto
    show False
    proof (cases e)
      case 0
      with e show False by simp
    next
      case (Suc e')
      with e have "(3 :: nat) = 2 * 2 ^ e'" by simp
      then have "even (3 :: nat)" by (metis dvd_triv_left)
      then show False by simp
    qed
  qed
  have n: "IntegerValue (?info ! 2) = 3" by (simp add: trunc_simps)
  have m: "malloc_ok demo_env (scrypt_keylen ?info)"
    by (simp add: demo_env_def scrypt_keylen_def trunc_simps)
  have kl: "scrypt_keylen ?info = 64" by (simp add: scrypt_keylen_def trunc_simps)
  from scrypt_invalid_parameters[OF ok eng refl refl refl] np n m kl ok
  show ?thesis by simp
qed

text \<open>
  Claim C1, as stated, does not hold: with \<open>N = 3\<close>, which is not a power of two, the
  key buffer of 64 bytes is allocated before the engine sees the parameters.
\<close>

theorem scrypt_allocates_before_validation:
  "scrypt demo_env [JSBuffer [], JSBuffer [], JSInt 3, JSInt 1, JSInt 1, JSInt 64] =
     \<lparr>events = [Malloc 64, ScryptCall, Free], result = Threw (Error ''Scrypt failed.'')\<rparr> \<and>
   \<not> scrypt_params_ok 3 1 1"
  by (simp add: scrypt_def demo_env_def Buffer_Length_def Let_def bcrypto_scrypt_spec_def
      scrypt_params_ok_def trunc_simps)

subsection \<open>scrypt: determinism\<close>

text \<open>
  Claim C4. Let the engine be the driver of the spec over a PRF that returns as many
  bytes as it is asked for, and let two calls of \<open>scrypt\<close> on the same arguments run
  with different allocators and different contents of fresh memory: the key block,
  the expanded buffer and every scratch array start with other bytes in the one call
  than in the other. If both calls succeed, they return the same key, byte for byte.
\<close>

theorem scrypt_deterministic:
  assumes "\<forall>pw s it n out. PRF pw s it n = Done out \<longrightarrow> length out = n"
    and "bcrypto_scrypt env1 = bcrypto_scrypt_spec (malloc_ok env1) (heap_fill env1) PRF bm"
    and "bcrypto_scrypt env2 = bcrypto_scrypt_spec (malloc_ok env2) (heap_fill env2) PRF bm"
    and "result (scrypt env1 info) = Returned k1"
    and "result (scrypt env2 info) = Returned k2"
  shows "k1 = k2"
proof -
  let ?n = "scrypt_keylen info"
  from scrypt_cases[of env1 info] assms(4)
  obtain evs1 out1 where o1: "scrypt_call env1 info = (evs1, Done out1)"
    and k1: "k1 = JSBuffer (take (?n mod 2 ^ 32) (write_at (fresh env1 ?n) 0 out1))"
    by auto
  from scrypt_cases[of env2 info] assms(5)
  obtain evs2 out2 where o2: "scrypt_call env2 info = (evs2, Done out2)"
    and k2: "k2 = JSBuffer (take (?n mod 2 ^ 32) (write_at (fresh env2 ?n) 0 out2))"
    by auto
  let ?pass = "take (unat (of_nat (Buffer_Length (info ! 0)) :: uint32_t)) (Buffer_Data (info ! 0))"
  let ?salt = "take (Buffer_Length (info ! 1)) (Buffer_Data (info ! 1))"
  from o1 have e1: "bcrypto_scrypt_spec (malloc_ok env1) (heap_fill env1) PRF bm ?pass ?salt
      (IntegerValue (info ! 2)) (IntegerValue (info ! 3)) (IntegerValue (info ! 4)) ?n =
      (evs1, Done out1)"
    by (simp add: scrypt_call_def assms(2))
  from o2 have e2: "bcrypto_scrypt_spec (malloc_ok env2) (heap_fill env2) PRF bm ?pass ?salt
      (IntegerValue (info ! 2)) (IntegerValue (info ! 3)) (IntegerValue (info ! 4)) ?n =
      (evs2, Done out2)"
    by (simp add: scrypt_call_def assms(3))
  from spec_engine_junk[OF assms(1) e1 e2] have eq: "out1 = out2" and len: "length out1 = ?n"
    by blast+
  then have "write_at (fresh env1 ?n) 0 out1 = out1" "write_at (fresh env2 ?n) 0 out1 = out1"
    by (simp_all add: write_at_0_full length_fresh)
  with k1 k2 eq show ?thesis by simp
qed

theorem scrypt_deterministic_witness:
  "result (scrypt demo_env
     [JSBuffer [1, 2], JSBuffer [3], JSInt 2, JSInt 1, JSInt 1, JSInt 2]) =
     Returned (JSBuffer [130, 131]) \<and>
   result (scrypt
     (demo_env\<lparr>malloc_ok := (\<lambda>n. True), heap_fill := (\<lambda>i. of_nat i),
        bcrypto_scrypt := bcrypto_scrypt_spec (\<lambda>n. True) (\<lambda>i. of_nat i) demo_prf demo_blockmix\<rparr>)
     [JSBuffer [1, 2], JSBuffer [3], JSInt 2, JSInt 1, JSInt 1, JSInt 2]) =
     Returned (JSBuffer [130, 131])"
proof -
  let ?info = "[JSBuffer [1, 2], JSBuffer [3], JSInt 2, JSInt 1, JSInt 1, JSInt 2]"
  let ?env2 = "demo_env\<lparr>malloc_ok := (\<lambda>n. True), heap_fill := (\<lambda>i. of_nat i),
        bcrypto_scrypt := bcrypto_scrypt_spec (\<lambda>n. True) (\<lambda>i. of_nat i) demo_prf demo_blockmix\<rparr>"
  have c: "\<forall>pw s it n out. demo_prf pw s it n = Done out \<longrightarrow> length out = n"
    by (auto simp add: demo_prf_def)
  have e1: "bcrypto_scrypt demo_env =
      bcrypto_scrypt_spec (malloc_ok demo_env) (heap_fill demo_env) demo_prf demo_blockmix"
    by (simp add: demo_env_def)
  have e2: "bcrypto_scrypt ?env2 =
      bcrypto_scrypt_spec (malloc_ok ?env2) (heap_fill ?env2) demo_prf demo_blockmix"
    by simp
  have r1: "result (scrypt demo_env ?info) = Returned (JSBuffer [130, 131])"
    using demo_scrypt[of 2] by (simp add: upt_2)
  have ok: "scrypt_args_ok ?info" by (simp add: scrypt_args_ok_def)
  have "scrypt_call ?env2 ?info =
      ([Malloc 128, PrfCall 128, Malloc 256, Free, PrfCall 2, Free],
       Done (map (\<lambda>i. of_nat (130 + i)) [0..<2]))"
    by (simp add: scrypt_call_def scrypt_keylen_def Buffer_Length_def trunc_simps
        bcrypto_scrypt_spec_def scrypt_params_ok_def demo_prf_def
        demo_blockmix_def write_at_0_full length_fresh_block length_SMix_scratch)
  then have "\<exists>k2. result (scrypt ?env2 ?info) = Returned k2"
    by (subst scrypt_well_typed[OF ok]) simp
  then obtain k2 where r2: "result (scrypt ?env2 ?info) = Returned k2" ..
  from scrypt_deterministic[OF c e1 e2 r1 r2] r1 r2 show ?thesis by simp
qed

subsection \<open>random\_fill\<close>

lemma uint32_of_int: "uint32_of (Finite (of_int a)) = word_of_int a"
  by (simp add: trunc_simps)

lemma unat_word_of_int_32_small:
  "0 \<le> a \<Longrightarrow> a < 2 ^ 32 \<Longrightarrow> unat (word_of_int a :: 32 word) = nat a"
  by (simp add: unat_word_of_int_32)

lemma bit31_size_t: "(n AND 0x80000000 \<noteq> 0) = (2 ^ 31 \<le> n mod 2 ^ 32)" for n :: nat
proof -
  have a: "(n AND 2 ^ 31 = 0) = (\<not> bit n 31)" by (rule and_exp_eq_0_iff_not_bit)
  have b: "bit (take_bit 32 n) 31 = bit n 31" by (simp add: bit_take_bit_iff)
  have c: "(take_bit 32 n AND 2 ^ 31 = 0) = (\<not> bit (take_bit 32 n) 31)"
    by (rule and_exp_eq_0_iff_not_bit)
  have "(n AND 2 ^ 31 \<noteq> 0) = (take_bit 32 n AND 2 ^ 31 \<noteq> 0)" by (simp only: a b c)
  then have "(n AND 0x80000000 \<noteq> 0) = (n mod 2 ^ 32 AND 0x80000000 \<noteq> 0)"
    by (simp add: take_bit_eq_mod)
  moreover have "n mod 2 ^ 32 < 2 ^ 32" by simp
  ultimately show ?thesis using bit31_nat[of "n mod 2 ^ 32"] by simp
qed

lemma bit31_clear: "n < 2 ^ 31 \<Longrightarrow> n AND 0x80000000 = 0" for n :: nat
  using bit31_nat[of n] by simp

lemma random_fill_typed:
  assumes "info = JSBuffer data # JSNumber x # JSNumber y # rest"
    and "pos = uint32_of x" and "sz = uint32_of y"
  shows "random_fill env info =
    (if length data AND 0x80000000 \<noteq> 0 \<or> pos AND 0x80000000 \<noteq> 0 \<or> sz AND 0x80000000 \<noteq> 0
     then fill_throw info (Error ''Invalid range.'')
     else if unat (pos + sz) > length data
     then fill_throw info (Error ''Size exceeds length.'')
     else (case bcrypto_random env (unat sz) of
             (out, Some reason) \<Rightarrow>
               \<lparr>events = [RandomCall (unat pos) (unat sz)],
                result = Threw (Error ''Could not get random bytes.''),
                info_after = info[0 := JSBuffer (write_at data (unat pos) out)]\<rparr>
           | (out, None) \<Rightarrow>
               \<lparr>events = [RandomCall (unat pos) (unat sz)],
                result = Returned (JSBuffer (write_at data (unat pos) out)),
                info_after = info[0 := JSBuffer (write_at data (unat pos) out)]\<rparr>))"
  using assms
  by (simp add: random_fill_def Let_def Buffer_Length_def cong: prod.case_cong option.case_cong)

lemma random_fill_int:
  assumes "info = JSBuffer data # JSInt a # JSInt b # rest"
    and "pos = (word_of_int a :: uint32_t)" and "sz = (word_of_int b :: uint32_t)"
  shows "random_fill env info =
    (if length data AND 0x80000000 \<noteq> 0 \<or> pos AND 0x80000000 \<noteq> 0 \<or> sz AND 0x80000000 \<noteq> 0
     then fill_throw info (Error ''Invalid range.'')
     else if unat (pos + sz) > length data
     then fill_throw info (Error ''Size exceeds length.'')
     else (case bcrypto_random env (unat sz) of
             (out, Some reason) \<Rightarrow>
               \<lparr>events = [RandomCall (unat pos) (unat sz)],
                result = Threw (Error ''Could not get random bytes.''),
                info_after = info[0 := JSBuffer (write_at data (unat pos) out)]\<rparr>
           | (out, None) \<Rightarrow>
               \<lparr>events = [RandomCall (unat pos) (unat sz)],
                result = Returned (JSBuffer (write_at data (unat pos) out)),
                info_after = info[0 := JSBuffer (write_at data (unat pos) out)]\<rparr>))"
  using random_fill_typed[OF assms(1) refl refl, of env]
  by (simp only: uint32_of_int assms(2,3))

lemma unat_add_no_wrap:
  fixes x y :: "32 word"
  assumes "unat x < 2 ^ 31" and "unat y < 2 ^ 31"
  shows "unat (x + y) = unat x + unat y"
proof -
  from assms have "unat x + unat y < 2 ^ 32" by simp
  then show ?thesis by (simp add: unat_word_ariths)
qed

lemma write_at_frame:
  assumes "i < length blk" and "i < pos \<or> pos + length out \<le> i"
  shows "write_at blk pos out ! i = blk ! i"
proof (cases "i < pos")
  case True
  with assms(1) show ?thesis by (simp add: write_at_def nth_append)
next
  case False
  with assms have "pos + length out \<le> i" by simp
  with assms(1) show ?thesis by (auto simp add: write_at_def nth_append min_def)
qed

lemma demo_random: "bcrypto_random demo_env = bcrypto_random_spec True (\<lambda>i. of_nat i + 1)"
  by (simp add: demo_env_def)

lemma demo_fill_1_2:
  "random_fill demo_env [JSBuffer [9, 9, 9, 9], JSInt 1, JSInt 2] =
     \<lparr>events = [RandomCall 1 2], result = Returned (JSBuffer [9, 1, 2, 9]),
      info_after = [JSBuffer [9, 1, 2, 9], JSInt 1, JSInt 2]\<rparr>"
  by (subst random_fill_int[OF refl refl refl])
     (simp add: demo_random bcrypto_random_spec_def write_at_def upt_2 bit31_clear)

text \<open>
  Claim C8, as the code has it. Let the position and the size be integers of
  \<open>[0, 2^32)\<close>. With a random primitive that stores exactly the bytes it is asked for,
  a successful \<open>random_fill\<close> returns the buffer it was given, of unchanged length, in
  which every byte at an index outside \<open>[pos, pos + size)\<close> has kept its value.
\<close>

theorem random_fill_frame:
  assumes "bcrypto_random env = bcrypto_random_spec available source"
    and "info = JSBuffer data # JSInt a # JSInt b # rest"
    and "0 \<le> a" and "a < 2 ^ 32" and "0 \<le> b" and "b < 2 ^ 32"
    and "result (random_fill env info) = Returned v"
  shows "\<exists>data'. v = JSBuffer data' \<and>
           info_after (random_fill env info) = JSBuffer data' # JSInt a # JSInt b # rest \<and>
           length data' = length data \<and>
           (\<forall>i<length data. int i < a \<or> a + b \<le> int i \<longrightarrow> data' ! i = data ! i)"
proof -
  let ?pos = "word_of_int a :: uint32_t" and ?sz = "word_of_int b :: uint32_t"
  have p: "unat ?pos = nat a" and s: "unat ?sz = nat b"
    using assms(3-6) by (simp_all add: unat_word_of_int_32_small)
  note rf = random_fill_int[OF assms(2) refl refl, of env]
  from assms(7) rf have av: "available"
    by (auto simp add: fill_throw_def assms(1) bcrypto_random_spec_def split: if_splits)
  then have call: "bcrypto_random env (unat ?sz) = (map source [0..<nat b], None)"
    by (simp add: assms(1) bcrypto_random_spec_def s)
  let ?d = "write_at data (nat a) (map source [0..<nat b])"
  from assms(7) rf call p s have v: "v = JSBuffer ?d"
    and ia: "info_after (random_fill env info) = info[0 := JSBuffer ?d]"
    by (auto simp add: fill_throw_def split: if_splits)
  have "\<forall>i<length data. i < nat a \<or> nat a + nat b \<le> i \<longrightarrow> ?d ! i = data ! i"
    by (simp add: write_at_frame)
  moreover have "(int i < a \<or> a + b \<le> int i) = (i < nat a \<or> nat a + nat b \<le> i)" for i
    using assms(3,5) by linarith
  ultimately have "\<forall>i<length data. int i < a \<or> a + b \<le> int i \<longrightarrow> ?d ! i = data ! i"
    by simp
  with v ia assms(2) show ?thesis by (simp add: length_write_at)
qed

theorem random_fill_frame_witness:
  "result (random_fill demo_env [JSBuffer [9, 9, 9, 9], JSInt 1, JSInt 2]) =
     Returned (JSBuffer [9, 1, 2, 9]) \<and>
   info_after (random_fill demo_env [JSBuffer [9, 9, 9, 9], JSInt 1, JSInt 2]) =
     [JSBuffer [9, 1, 2, 9], JSInt 1, JSInt 2] \<and>
   [9, 1, 2, 9 :: 8 word] ! 0 = [9, 9, 9, 9] ! 0 \<and> [9, 1, 2, 9 :: 8 word] ! 3 = [9, 9, 9, 9] ! 3"
proof -
  have r: "result (random_fill demo_env [JSBuffer [9, 9, 9, 9], JSInt 1, JSInt 2]) =
     Returned (JSBuffer [9, 1, 2, 9])"
    by (subst demo_fill_1_2) simp
  from random_fill_frame[where rest="[]" and a=1 and b=2, OF demo_random refl _ _ _ _ r]
  have "info_after (random_fill demo_env [JSBuffer [9, 9, 9, 9], JSInt 1, JSInt 2]) =
      [JSBuffer [9, 1, 2, 9], JSInt 1, JSInt 2] \<and>
      (\<forall>i<4. int i < 1 \<or> 3 \<le> int i \<longrightarrow> [9, 1, 2, 9 :: 8 word] ! i = [9, 9, 9, 9] ! i)"
    by simp
  with r show ?thesis by simp
qed

text \<open>
  Claim C8, as stated, does not hold: a call with position \<open>2^32 + 1\<close> and size 2 on a
  buffer of four bytes succeeds and overwrites the bytes 1 and 2, which lie outside
  \<open>[pos, pos + size)\<close>: \<^verbatim>\<open>Uint32Value()\<close> reads the position as 1.
\<close>

theorem random_fill_outside_range:
  "result (random_fill demo_env [JSBuffer [9, 9, 9, 9], JSInt 4294967297, JSInt 2]) =
     Returned (JSBuffer [9, 1, 2, 9]) \<and>
   (1 :: int) < 4294967297 \<and> [9, 1, 2, 9 :: 8 word] ! 1 \<noteq> [9, 9, 9, 9] ! 1"
  by (subst random_fill_int[OF refl refl refl])
     (simp add: demo_random bcrypto_random_spec_def write_at_def upt_2 bit31_clear)

text \<open>
  Claim C9, as the code has it. When bit 31 of the buffer length is set, or the 32-bit
  position or the 32-bit size is \<open>2^31\<close> or more, the call fails with \<open>Invalid range.\<close>
  before anything is written. Whenever \<^verbatim>\<open>bcrypto_random(&data[pos], size)\<close> is
  reached, the 32-bit sum \<open>pos + size\<close> did not wrap around and \<open>pos + size \<le> len\<close>: the
  range handed to the primitive lies within the buffer.
\<close>

theorem random_fill_range_guard:
  assumes "info = JSBuffer data # JSNumber x # JSNumber y # rest"
    and "pos = Uint32Value (JSNumber x)" and "sz = Uint32Value (JSNumber y)"
  shows "(2 ^ 31 \<le> length data mod 2 ^ 32 \<or> 2 ^ 31 \<le> unat pos \<or> 2 ^ 31 \<le> unat sz \<longrightarrow>
            random_fill env info =
              \<lparr>events = [], result = Threw (Error ''Invalid range.''), info_after = info\<rparr>) \<and>
         (RandomCall i n \<in> set (events (random_fill env info)) \<longrightarrow>
            i = unat pos \<and> n = unat sz \<and> unat pos + unat sz < 2 ^ 32 \<and>
            unat (pos + sz) = unat pos + unat sz \<and> unat pos + unat sz \<le> length data)"
proof (intro conjI impI)
  have ps: "pos = uint32_of x" "sz = uint32_of y" using assms(2,3) by simp_all
  note rf = random_fill_typed[OF assms(1) ps, of env]
  {
    assume h: "2 ^ 31 \<le> length data mod 2 ^ 32 \<or> 2 ^ 31 \<le> unat pos \<or> 2 ^ 31 \<le> unat sz"
    then have "length data AND 0x80000000 \<noteq> 0 \<or> pos AND 0x80000000 \<noteq> 0 \<or>
        sz AND 0x80000000 \<noteq> 0"
      using bit31_size_t[of "length data"] bit31_word[of pos] bit31_word[of sz] by blast
    then show "random_fill env info =
        \<lparr>events = [], result = Threw (Error ''Invalid range.''), info_after = info\<rparr>"
      using rf by (simp add: fill_throw_def)
  }
  assume ev: "RandomCall i n \<in> set (events (random_fill env info))"
  have g1: "\<not> (length data AND 0x80000000 \<noteq> 0 \<or> pos AND 0x80000000 \<noteq> 0 \<or>
        sz AND 0x80000000 \<noteq> 0)"
  proof
    assume "length data AND 0x80000000 \<noteq> 0 \<or> pos AND 0x80000000 \<noteq> 0 \<or>
        sz AND 0x80000000 \<noteq> 0"
    then have "events (random_fill env info) = []" using rf by (simp add: fill_throw_def)
    with ev show False by simp
  qed
  have g2: "\<not> unat (pos + sz) > length data"
  proof
    assume "unat (pos + sz) > length data"
    then have "events (random_fill env info) = []" using rf g1 by (simp add: fill_throw_def)
    with ev show False by simp
  qed
  from g1 have small: "unat pos < 2 ^ 31" "unat sz < 2 ^ 31"
    using bit31_word[of pos] bit31_word[of sz] by auto
  then have sum: "unat (pos + sz) = unat pos + unat sz" by (rule unat_add_no_wrap)
  have "events (random_fill env info) = [RandomCall (unat pos) (unat sz)]"
    using rf g1 g2 by (simp split: prod.split option.split)
  with ev show "i = unat pos" "n = unat sz" by simp_all
  from small show "unat pos + unat sz < 2 ^ 32" by simp
  from sum show "unat (pos + sz) = unat pos + unat sz" .
  from g2 sum show "unat pos + unat sz \<le> length data" by simp
qed

theorem random_fill_range_guard_witness:
  "random_fill demo_env [JSBuffer [9, 9, 9, 9], JSInt 2147483648, JSInt 1] =
     \<lparr>events = [], result = Threw (Error ''Invalid range.''),
      info_after = [JSBuffer [9, 9, 9, 9], JSInt 2147483648, JSInt 1]\<rparr> \<and>
   RandomCall 1 2 \<in> set (events (random_fill demo_env [JSBuffer [9, 9, 9, 9], JSInt 1, JSInt 2])) \<and>
   unat (1 :: uint32_t) + unat (2 :: uint32_t) \<le> length [9, 9, 9, 9 :: 8 word]"
proof -
  have ev: "RandomCall 1 2 \<in>
      set (events (random_fill demo_env [JSBuffer [9, 9, 9, 9], JSInt 1, JSInt 2]))"
    by (subst demo_fill_1_2) simp
  have hi: "2 ^ 31 \<le> unat (Uint32Value (JSInt 2147483648))"
    by (simp add: trunc_simps)
  from random_fill_range_guard[where data="[9, 9, 9, 9]" and x="Finite (of_int 2147483648)"
      and y="Finite (of_int 1)" and rest="[]" and env=demo_env and i=0 and n=0, OF refl refl refl] hi
  have a: "random_fill demo_env [JSBuffer [9, 9, 9, 9], JSInt 2147483648, JSInt 1] =
     \<lparr>events = [], result = Threw (Error ''Invalid range.''),
      info_after = [JSBuffer [9, 9, 9, 9], JSInt 2147483648, JSInt 1]\<rparr>"
    by blast
  from random_fill_range_guard[where data="[9, 9, 9, 9]" and x="Finite (of_int 1)"
      and y="Finite (of_int 2)" and rest="[]" and env=demo_env and i=1 and n=2, OF refl refl refl] ev
  have "unat (Uint32Value (JSInt 1)) + unat (Uint32Value (JSInt 2)) \<le> length [9, 9, 9, 9 :: 8 word]"
    by blast
  then have b: "unat (1 :: uint32_t) + unat (2 :: uint32_t) \<le> length [9, 9, 9, 9 :: 8 word]"
    by (simp add: trunc_simps)
  from a b ev show ?thesis by simp
qed

text \<open>
  Claim C9, as stated, does not hold: the length of a buffer of \<open>2^32\<close> bytes is
  \<open>2^31\<close> or more, but its bit 31 is clear; the call passes the guard and reaches the
  random primitive.
\<close>

theorem random_fill_long_buffer:
  "events (random_fill demo_env [JSBuffer (replicate 4294967296 0), JSInt 0, JSInt 1]) =
     [RandomCall 0 1] \<and>
   (2 :: nat) ^ 31 \<le> length (replicate 4294967296 (0 :: 8 word))"
  by (subst random_fill_int[OF refl refl refl])
     (simp add: demo_random bcrypto_random_spec_def)

lemma random_fill_outcome_mod:
  assumes "info = JSBuffer data # JSInt a # JSInt b # rest"
    and "bcrypto_random env = bcrypto_random_spec available source"
    and "length data < 2 ^ 31"
    and "pos = nat (a mod 2 ^ 32)" and "n = nat (b mod 2 ^ 32)"
  shows "((\<exists>e. result (random_fill env info) = Threw e) \<longleftrightarrow>
            \<not> available \<or> length data < pos + n) \<and>
         (length data < pos + n \<longrightarrow>
            events (random_fill env info) = [] \<and> info_after (random_fill env info) = info) \<and>
         (available \<and> pos + n \<le> length data \<longrightarrow>
            result (random_fill env info) =
              Returned (JSBuffer (take pos data @ map source [0..<n] @ drop (pos + n) data)) \<and>
            info_after (random_fill env info) =
              JSBuffer (take pos data @ map source [0..<n] @ drop (pos + n) data) #
              JSInt a # JSInt b # rest)"
proof -
  let ?pos = "word_of_int a :: uint32_t" and ?sz = "word_of_int b :: uint32_t"
  have p: "unat ?pos = pos" and s: "unat ?sz = n"
    using assms(4,5) by (simp_all add: unat_word_of_int_32)
  note rf = random_fill_int[OF assms(1) refl refl, of env]
  have len: "\<not> length data AND 0x80000000 \<noteq> 0"
    using assms(3) bit31_nat[of "length data"] by simp
  have hi: "(?pos AND 0x80000000 \<noteq> 0) = (2 ^ 31 \<le> pos)" "(?sz AND 0x80000000 \<noteq> 0) = (2 ^ 31 \<le> n)"
    using bit31_word[of ?pos] bit31_word[of ?sz] p s by simp_all
  have outside: "events (random_fill env info) = [] \<and> info_after (random_fill env info) = info \<and>
      (\<exists>e. result (random_fill env info) = Threw e)" if "length data < pos + n"
  proof (cases "2 ^ 31 \<le> pos \<or> 2 ^ 31 \<le> n")
    case True
    then show ?thesis using rf hi by (auto simp add: fill_throw_def)
  next
    case False
    then have "unat (?pos + ?sz) = pos + n" using unat_add_no_wrap[of ?pos ?sz] p s by simp
    with that False show ?thesis using rf hi len by (simp add: fill_throw_def)
  qed
  have inside: "random_fill env info =
      (case bcrypto_random env n of
         (out, Some reason) \<Rightarrow>
           \<lparr>events = [RandomCall pos n], result = Threw (Error ''Could not get random bytes.''),
            info_after = info[0 := JSBuffer (write_at data pos out)]\<rparr>
       | (out, None) \<Rightarrow>
           \<lparr>events = [RandomCall pos n], result = Returned (JSBuffer (write_at data pos out)),
            info_after = info[0 := JSBuffer (write_at data pos out)]\<rparr>)"
    if "pos + n \<le> length data"
  proof -
    from that assms(3) have small: "pos < 2 ^ 31" "n < 2 ^ 31" by simp_all
    then have "unat (?pos + ?sz) = pos + n" using unat_add_no_wrap[of ?pos ?sz] p s by simp
    with that small show ?thesis using rf hi len p s by simp
  qed
  have w: "write_at data pos (map source [0..<n]) =
      take pos data @ map source [0..<n] @ drop (pos + n) data" if "pos + n \<le> length data"
    using that by (simp add: write_at_def)
  have fail: "\<exists>e. result (random_fill env info) = Threw e" if "\<not> available" "pos + n \<le> length data"
    using inside[OF that(2)] that(1) by (simp add: assms(2) bcrypto_random_spec_def)
  have good: "result (random_fill env info) =
        Returned (JSBuffer (take pos data @ map source [0..<n] @ drop (pos + n) data)) \<and>
      info_after (random_fill env info) =
        JSBuffer (take pos data @ map source [0..<n] @ drop (pos + n) data) #
        JSInt a # JSInt b # rest" if "available" "pos + n \<le> length data"
    using inside[OF that(2)] that(1) w[OF that(2)]
    by (simp add: assms(1,2) bcrypto_random_spec_def)
  have iff: "(\<exists>e. result (random_fill env info) = Threw e) \<longleftrightarrow>
      \<not> available \<or> length data < pos + n"
  proof (cases "length data < pos + n")
    case True
    with outside show ?thesis by simp
  next
    case False
    then have le: "pos + n \<le> length data" by simp
    show ?thesis
    proof (cases available)
      case True
      with good[OF True le] False show ?thesis by simp
    next
      case False
      with fail[OF False le] show ?thesis by simp
    qed
  qed
  from iff outside good show ?thesis by blast
qed

text \<open>
  Claim C7, as the code has it. Let the offset and the length be unsigned 32-bit
  values and let the buffer be shorter than \<open>2^31\<close> bytes. Then \<open>random_fill\<close> fails
  exactly when the entropy source is unavailable or \<open>[offset, offset + length)\<close>
  exceeds the buffer; on such a range violation nothing is called and the buffer is
  unchanged; and when the source is available and the range fits, the bytes
  \<open>[offset, offset + length)\<close> of the buffer are replaced by bytes of the source.
\<close>

theorem random_fill_fails_iff:
  assumes "info = JSBuffer data # JSInt a # JSInt b # rest"
    and "bcrypto_random env = bcrypto_random_spec available source"
    and "length data < 2 ^ 31"
    and "0 \<le> a" and "a < 2 ^ 32" and "0 \<le> b" and "b < 2 ^ 32"
  shows "((\<exists>e. result (random_fill env info) = Threw e) \<longleftrightarrow>
            \<not> available \<or> int (length data) < a + b) \<and>
         (int (length data) < a + b \<longrightarrow>
            events (random_fill env info) = [] \<and> info_after (random_fill env info) = info) \<and>
         (available \<and> a + b \<le> int (length data) \<longrightarrow>
            result (random_fill env info) =
              Returned (JSBuffer
                (take (nat a) data @ map source [0..<nat b] @ drop (nat a + nat b) data)) \<and>
            info_after (random_fill env info) =
              JSBuffer (take (nat a) data @ map source [0..<nat b] @ drop (nat a + nat b) data) #
              JSInt a # JSInt b # rest)"
proof -
  have pa: "nat a = nat (a mod 2 ^ 32)" and pb: "nat b = nat (b mod 2 ^ 32)"
    using assms(4-7) by simp_all
  have lt: "(int (length data) < a + b) = (length data < nat a + nat b)"
    using assms(4,6) by linarith
  have le: "(a + b \<le> int (length data)) = (nat a + nat b \<le> length data)"
    using assms(4,6) by linarith
  from random_fill_outcome_mod[OF assms(1-3) pa pb] show ?thesis
    unfolding lt le .
qed

theorem random_fill_fails_iff_witness:
  "(\<exists>e. result (random_fill demo_env [JSBuffer [9, 9, 9, 9], JSInt 3, JSInt 2]) = Threw e) \<and>
   info_after (random_fill demo_env [JSBuffer [9, 9, 9, 9], JSInt 3, JSInt 2]) =
     [JSBuffer [9, 9, 9, 9], JSInt 3, JSInt 2] \<and>
   result (random_fill demo_env [JSBuffer [9, 9, 9, 9], JSInt 1, JSInt 2]) =
     Returned (JSBuffer [9, 1, 2, 9])"
proof -
  have e: "bcrypto_random demo_env = bcrypto_random_spec True (\<lambda>i. of_nat i + 1)"
    by (simp add: demo_env_def)
  have l: "length [9, 9, 9, 9 :: 8 word] < 2 ^ 31" by simp
  note t1 = random_fill_fails_iff[where a=3 and b=2 and rest="[]", OF refl e l]
  note t2 = random_fill_fails_iff[where a=1 and b=2 and rest="[]", OF refl e l]
  have u: "[0..<2] = [0, Suc 0]" by (simp add: upt_rec)
  from t1 have a: "(\<exists>e. result (random_fill demo_env [JSBuffer [9, 9, 9, 9], JSInt 3, JSInt 2]) = Threw e) \<and>
   info_after (random_fill demo_env [JSBuffer [9, 9, 9, 9], JSInt 3, JSInt 2]) =
     [JSBuffer [9, 9, 9, 9], JSInt 3, JSInt 2]"
    by simp
  from t2 have b: "result (random_fill demo_env [JSBuffer [9, 9, 9, 9], JSInt 1, JSInt 2]) =
     Returned (JSBuffer [9, 1, 2, 9])"
    by (simp add: u)
  from a b show ?thesis by simp
qed

text \<open>
  Claim C7, as stated, does not hold: an offset of \<open>2^32\<close> into a buffer of four bytes
  asks for a range far beyond the buffer, yet the call succeeds and overwrites the
  bytes 0 to 3: \<^verbatim>\<open>Uint32Value()\<close> reads the offset as 0.
\<close>

theorem random_fill_wrapped_offset:
  "result (random_fill demo_env [JSBuffer [9, 9, 9, 9], JSInt 4294967296, JSInt 4]) =
     Returned (JSBuffer [1, 2, 3, 4]) \<and>
   \<not> (4294967296 + 4 \<le> int (length [9, 9, 9, 9 :: 8 word]))"
  by code_simp

subsection \<open>Failures of the dependencies\<close>

lemma pbkdf2_typed:
  assumes "info = JSString name # JSBuffer data # JSBuffer salt # JSInt it # JSInt k # rest"
    and "keylen = unat (word_of_int k :: uint32_t)"
  shows "pbkdf2 env info =
     (if \<not> malloc_ok env keylen
      then \<lparr>events = [MallocNull keylen], result = Threw (Error ''Could not allocate key.'')\<rparr>
      else (case pbkdf2_call env info of
              Failed reason \<Rightarrow>
                \<lparr>events = [Malloc keylen, Pbkdf2Call, Free],
                 result = Threw (Error ''PBKDF2 failed.'')\<rparr>
            | Done out \<Rightarrow>
                \<lparr>events = [Malloc keylen, Pbkdf2Call],
                 result = Returned (NewBuffer env (write_at (fresh env keylen) 0 out)
                            (word_of_int k))\<rparr>))"
  using assms
  by (simp add: pbkdf2_def pbkdf2_call_def Let_def trunc_simps cong: native.case_cong)

lemma pbkdf2_async_typed:
  assumes "info = JSString name # JSBuffer data # JSBuffer salt # JSInt it # JSInt k #
      JSFunction f # rest"
  shows "pbkdf2_async env info =
     (case EVP_get_digestbyname env name of
        None \<Rightarrow> throw (TypeError ''Could not allocate context.'')
      | Some md \<Rightarrow> \<lparr>events = [QueueWorker], result = Returned JSUndefined\<rparr>)"
  using assms
  by (simp add: pbkdf2_async_def cong: option.case_cong)

text \<open>
  Claim C6, as the code has it. When a dependency fails, the public operation throws
  an error of its own wording and returns no value: \<open>pbkdf2\<close> releases the key buffer
  and throws \<open>PBKDF2 failed.\<close> whatever the reason of the failure, \<open>pbkdf2_async\<close>
  throws the type error \<open>Could not allocate context.\<close> for a digest name that is not
  known and queues no worker, and \<open>random_fill\<close> throws \<open>Could not get random bytes.\<close>
  when the random primitive fails on a range that lies within the buffer.
\<close>

theorem dependency_failure_thrown:
  "(info1 = JSString name # JSBuffer data # JSBuffer salt # JSInt it # JSInt k # rest1 \<and>
    malloc_ok env (unat (word_of_int k :: uint32_t)) \<and> pbkdf2_call env info1 = Failed reason \<longrightarrow>
      pbkdf2 env info1 =
        \<lparr>events = [Malloc (unat (word_of_int k :: uint32_t)), Pbkdf2Call, Free],
         result = Threw (Error ''PBKDF2 failed.'')\<rparr>) \<and>
   (info2 = JSString name # JSBuffer data # JSBuffer salt # JSInt it # JSInt k #
      JSFunction f # rest2 \<and> EVP_get_digestbyname env name = None \<longrightarrow>
      pbkdf2_async env info2 =
        \<lparr>events = [], result = Threw (TypeError ''Could not allocate context.'')\<rparr>) \<and>
   (info3 = JSBuffer buf # JSInt a # JSInt b # rest3 \<and> length buf < 2 ^ 31 \<and>
    0 \<le> a \<and> 0 \<le> b \<and> a + b \<le> int (length buf) \<and>
    snd (bcrypto_random env (nat b)) = Some reason' \<longrightarrow>
      result (random_fill env info3) = Threw (Error ''Could not get random bytes.''))"
proof (intro conjI impI)
  assume h: "info1 = JSString name # JSBuffer data # JSBuffer salt # JSInt it # JSInt k # rest1 \<and>
    malloc_ok env (unat (word_of_int k :: uint32_t)) \<and> pbkdf2_call env info1 = Failed reason"
  then have i: "info1 = JSString name # JSBuffer data # JSBuffer salt # JSInt it # JSInt k # rest1"
    by blast
  from h have m: "malloc_ok env (unat (word_of_int k :: uint32_t))"
    and c: "pbkdf2_call env info1 = Failed reason" by blast+
  show "pbkdf2 env info1 =
        \<lparr>events = [Malloc (unat (word_of_int k :: uint32_t)), Pbkdf2Call, Free],
         result = Threw (Error ''PBKDF2 failed.'')\<rparr>"
    using pbkdf2_typed[OF i refl, of env] m c by simp
next
  assume h: "info2 = JSString name # JSBuffer data # JSBuffer salt # JSInt it # JSInt k #
      JSFunction f # rest2 \<and> EVP_get_digestbyname env name = None"
  then have i: "info2 = JSString name # JSBuffer data # JSBuffer salt # JSInt it # JSInt k #
      JSFunction f # rest2" by blast
  from h have d: "EVP_get_digestbyname env name = None" by blast
  show "pbkdf2_async env info2 =
        \<lparr>events = [], result = Threw (TypeError ''Could not allocate context.'')\<rparr>"
    using pbkdf2_async_typed[OF i, of env] d by (simp add: throw_def)
next
  assume h: "info3 = JSBuffer buf # JSInt a # JSInt b # rest3 \<and> length buf < 2 ^ 31 \<and>
    0 \<le> a \<and> 0 \<le> b \<and> a + b \<le> int (length buf) \<and>
    snd (bcrypto_random env (nat b)) = Some reason'"
  then have i: "info3 = JSBuffer buf # JSInt a # JSInt b # rest3" by blast
  let ?pos = "word_of_int a :: uint32_t" and ?sz = "word_of_int b :: uint32_t"
  from h have ab: "a < 2 ^ 31" "b < 2 ^ 31" "0 \<le> a" "0 \<le> b" by auto
  then have p: "unat ?pos = nat a" and s: "unat ?sz = nat b"
    by (simp_all add: unat_word_of_int_32_small)
  with ab have small: "unat ?pos < 2 ^ 31" "unat ?sz < 2 ^ 31" by auto
  then have sum: "unat (?pos + ?sz) = nat a + nat b" using p s by (simp add: unat_add_no_wrap)
  from h have le: "nat a + nat b \<le> length buf" by auto
  have g: "\<not> (length buf AND 0x80000000 \<noteq> 0 \<or> ?pos AND 0x80000000 \<noteq> 0 \<or> ?sz AND 0x80000000 \<noteq> 0)"
    using h small bit31_nat[of "length buf"] bit31_word[of ?pos] bit31_word[of ?sz] by auto
  obtain out where c: "bcrypto_random env (nat b) = (out, Some reason')"
    using h by (cases "bcrypto_random env (nat b)") auto
  show "result (random_fill env info3) = Threw (Error ''Could not get random bytes.'')"
    using random_fill_int[OF i refl refl, of env] g sum le c s by simp
qed

theorem dependency_failure_thrown_witness:
  "pbkdf2 demo_env [JSString ''md6'', JSBuffer [1], JSBuffer [2], JSInt 1, JSInt 4] =
     \<lparr>events = [Malloc 4, Pbkdf2Call, Free], result = Threw (Error ''PBKDF2 failed.'')\<rparr> \<and>
   pbkdf2_async demo_env
     [JSString ''md6'', JSBuffer [1], JSBuffer [2], JSInt 1, JSInt 4, JSFunction 0] =
     \<lparr>events = [], result = Threw (TypeError ''Could not allocate context.'')\<rparr> \<and>
   result (random_fill (demo_env\<lparr>bcrypto_random := bcrypto_random_spec False (\<lambda>i. 0)\<rparr>)
     [JSBuffer [9, 9, 9, 9], JSInt 1, JSInt 2]) =
     Threw (Error ''Could not get random bytes.'')"
proof -
  let ?env3 = "demo_env\<lparr>bcrypto_random := bcrypto_random_spec False (\<lambda>i. 0)\<rparr>"
  have m: "malloc_ok demo_env (unat (word_of_int 4 :: uint32_t))" by (simp add: demo_env_def)
  have c: "pbkdf2_call demo_env
      [JSString ''md6'', JSBuffer [1], JSBuffer [2], JSInt 1, JSInt 4] =
      Failed ''unsupported digest''"
    by (simp add: pbkdf2_call_def demo_env_def trunc_simps)
  have d: "EVP_get_digestbyname demo_env ''md6'' = None" by (simp add: demo_env_def)
  have r: "snd (bcrypto_random ?env3 (nat 2)) = Some ''entropy source unavailable''"
    by (simp add: bcrypto_random_spec_def)
  have l: "length [9, 9, 9, 9 :: 8 word] < 2 ^ 31" by simp
  note t = dependency_failure_thrown[where name="''md6''" and data="[1]" and salt="[2]" and it=1
      and k=4 and ?rest1.0="[]" and ?rest2.0="[]" and f=0 and buf="[9, 9, 9, 9]" and a=1 and b=2
      and ?rest3.0="[]" and reason="''unsupported digest''" and reason'="''entropy source unavailable''"]
  from t[where env=demo_env and ?info1.0="[JSString ''md6'', JSBuffer [1], JSBuffer [2], JSInt 1, JSInt 4]"
      and ?info2.0="[JSString ''md6'', JSBuffer [1], JSBuffer [2], JSInt 1, JSInt 4, JSFunction 0]"]
    m c d
  have a: "pbkdf2 demo_env [JSString ''md6'', JSBuffer [1], JSBuffer [2], JSInt 1, JSInt 4] =
     \<lparr>events = [Malloc 4, Pbkdf2Call, Free], result = Threw (Error ''PBKDF2 failed.'')\<rparr> \<and>
   pbkdf2_async demo_env
     [JSString ''md6'', JSBuffer [1], JSBuffer [2], JSInt 1, JSInt 4, JSFunction 0] =
     \<lparr>events = [], result = Threw (TypeError ''Could not allocate context.'')\<rparr>"
    by simp
  from t[where env="?env3" and ?info3.0="[JSBuffer [9, 9, 9, 9], JSInt 1, JSInt 2]"] r l
  have b: "result (random_fill ?env3 [JSBuffer [9, 9, 9, 9], JSInt 1, JSInt 2]) =
     Threw (Error ''Could not get random bytes.'')"
    by simp
  from a b show ?thesis by simp
qed

text \<open>
  Claim C6, as stated, does not hold: the dependency fails because the digest \<open>md6\<close> is
  not supported, and what reaches the caller is \<open>PBKDF2 failed.\<close> from \<open>pbkdf2\<close> and
  \<open>Could not allocate context.\<close> from \<open>pbkdf2_async\<close>, not the dependency's error.
\<close>

theorem pbkdf2_error_not_verbatim:
  "pbkdf2_call demo_env [JSString ''md6'', JSBuffer [1], JSBuffer [2], JSInt 1, JSInt 4] =
     Failed ''unsupported digest'' \<and>
   result (pbkdf2 demo_env [JSString ''md6'', JSBuffer [1], JSBuffer [2], JSInt 1, JSInt 4]) =
     Threw (Error ''PBKDF2 failed.'') \<and>
   EVP_get_digestbyname demo_env ''md6'' = None \<and>
   result (pbkdf2_async demo_env
     [JSString ''md6'', JSBuffer [1], JSBuffer [2], JSInt 1, JSInt 4, JSFunction 0]) =
     Threw (TypeError ''Could not allocate context.'')"
  by code_simp

subsection \<open>encipher and decipher: key and IV sizes\<close>

lemma encipher_sizes:
  assumes "info = JSBuffer data # JSBuffer key # JSBuffer iv # rest"
  shows "encipher env info =
    (if length key \<noteq> 32 then throw (Error ''Bad key size.'')
     else if length iv \<noteq> 16 then throw (Error ''Bad IV size.'')
     else
       (if \<not> malloc_ok env (unat (BCRYPTO_ENCIPHER_SIZE env (length data)))
        then \<lparr>events = [MallocNull (unat (BCRYPTO_ENCIPHER_SIZE env (length data)))],
              result = Threw (Error ''Could not allocate ciphertext.'')\<rparr>
        else (case bcrypto_encipher env data key iv (unat (BCRYPTO_ENCIPHER_SIZE env (length data))) of
                Failed reason \<Rightarrow>
                  \<lparr>events = [Malloc (unat (BCRYPTO_ENCIPHER_SIZE env (length data))), EncipherCall, Free],
                   result = Threw (Error ''Encipher failed.'')\<rparr>
              | Done (out, olen') \<Rightarrow>
                  \<lparr>events = [Malloc (unat (BCRYPTO_ENCIPHER_SIZE env (length data))), EncipherCall],
                   result = Returned (NewBuffer env
                     (write_at (fresh env (unat (BCRYPTO_ENCIPHER_SIZE env (length data)))) 0 out)
                     olen')\<rparr>)))"
  using assms
  by (simp add: encipher_def Let_def Buffer_Length_def cong: native.case_cong prod.case_cong)

lemma decipher_sizes:
  assumes "info = JSBuffer data # JSBuffer key # JSBuffer iv # rest"
  shows "decipher env info =
    (if length key \<noteq> 32 then throw (Error ''Bad key size.'')
     else if length iv \<noteq> 16 then throw (Error ''Bad IV size.'')
     else
       (if \<not> malloc_ok env (unat (BCRYPTO_DECIPHER_SIZE env (length data)))
        then \<lparr>events = [MallocNull (unat (BCRYPTO_DECIPHER_SIZE env (length data)))],
              result = Threw (Error ''Could not allocate plaintext.'')\<rparr>
        else (case bcrypto_decipher env data key iv (unat (BCRYPTO_DECIPHER_SIZE env (length data))) of
                Failed reason \<Rightarrow>
                  \<lparr>events = [Malloc (unat (BCRYPTO_DECIPHER_SIZE env (length data))), DecipherCall, Free],
                   result = Threw (Error ''Decipher failed.'')\<rparr>
              | Done (out, olen') \<Rightarrow>
                  \<lparr>events = [Malloc (unat (BCRYPTO_DECIPHER_SIZE env (length data))), DecipherCall],
                   result = Returned (NewBuffer env
                     (write_at (fresh env (unat (BCRYPTO_DECIPHER_SIZE env (length data)))) 0 out)
                     olen')\<rparr>)))"
  using assms
  by (simp add: decipher_def Let_def Buffer_Length_def cong: native.case_cong prod.case_cong)

text \<open>
  Claim C10, as the code has it. Given three buffers, \<open>encipher\<close> and \<open>decipher\<close> throw
  \<open>Bad key size.\<close> whenever the key is not exactly 32 bytes long, and \<open>Bad IV size.\<close>
  whenever the key is 32 bytes long and the IV is not exactly 16 bytes long; in both
  cases nothing has been allocated and the cipher has not run.
\<close>

theorem cipher_size_checks:
  assumes "info = JSBuffer data # JSBuffer key # JSBuffer iv # rest"
  shows "(length key \<noteq> 32 \<longrightarrow>
            encipher env info = \<lparr>events = [], result = Threw (Error ''Bad key size.'')\<rparr> \<and>
            decipher env info = \<lparr>events = [], result = Threw (Error ''Bad key size.'')\<rparr>) \<and>
         (length key = 32 \<and> length iv \<noteq> 16 \<longrightarrow>
            encipher env info = \<lparr>events = [], result = Threw (Error ''Bad IV size.'')\<rparr> \<and>
            decipher env info = \<lparr>events = [], result = Threw (Error ''Bad IV size.'')\<rparr>)"
  using encipher_sizes[OF assms, of env] decipher_sizes[OF assms, of env]
  by (simp add: throw_def)

theorem cipher_size_checks_witness:
  "encipher demo_env [JSBuffer [1], JSBuffer [7], JSBuffer []] =
     \<lparr>events = [], result = Threw (Error ''Bad key size.'')\<rparr> \<and>
   decipher demo_env [JSBuffer [1], JSBuffer [7], JSBuffer []] =
     \<lparr>events = [], result = Threw (Error ''Bad key size.'')\<rparr> \<and>
   encipher demo_env [JSBuffer [1], JSBuffer (replicate 32 7), JSBuffer [5]] =
     \<lparr>events = [], result = Threw (Error ''Bad IV size.'')\<rparr> \<and>
   decipher demo_env [JSBuffer [1], JSBuffer (replicate 32 7), JSBuffer [5]] =
     \<lparr>events = [], result = Threw (Error ''Bad IV size.'')\<rparr>"
proof -
  have k: "length [7 :: 8 word] \<noteq> 32" by simp
  have v: "length (replicate 32 (7 :: 8 word)) = 32 \<and> length [5 :: 8 word] \<noteq> 16" by simp
  from cipher_size_checks[where data="[1]" and key="[7]" and iv="[]" and rest="[]" and env=demo_env,
      OF refl] k
  have a: "encipher demo_env [JSBuffer [1], JSBuffer [7], JSBuffer []] =
     \<lparr>events = [], result = Threw (Error ''Bad key size.'')\<rparr> \<and>
   decipher demo_env [JSBuffer [1], JSBuffer [7], JSBuffer []] =
     \<lparr>events = [], result = Threw (Error ''Bad key size.'')\<rparr>"
    by blast
  from cipher_size_checks[where data="[1]" and key="replicate 32 7" and iv="[5]" and rest="[]"
      and env=demo_env, OF refl] v
  have b: "encipher demo_env [JSBuffer [1], JSBuffer (replicate 32 7), JSBuffer [5]] =
     \<lparr>events = [], result = Threw (Error ''Bad IV size.'')\<rparr> \<and>
   decipher demo_env [JSBuffer [1], JSBuffer (replicate 32 7), JSBuffer [5]] =
     \<lparr>events = [], result = Threw (Error ''Bad IV size.'')\<rparr>"
    by blast
  from a b show ?thesis by simp
qed

text \<open>
  Claim C10, as stated, does not hold: with a key of one byte and an empty IV, the IV
  is not 16 bytes long and yet the error is \<open>Bad key size.\<close>, since the key is
  checked first.
\<close>

theorem cipher_bad_key_hides_bad_iv:
  "length ([] :: bytes) \<noteq> 16 \<and>
   result (encipher demo_env [JSBuffer [1], JSBuffer [7], JSBuffer []]) =
     Threw (Error ''Bad key size.'') \<and>
   result (decipher demo_env [JSBuffer [1], JSBuffer [7], JSBuffer []]) =
     Threw (Error ''Bad key size.'')"
  by code_simp

end
